theory Spec2Isabelle
  imports Main
begin

section \<open>JSON values as the client sees them\<close>

text \<open>
  The responses of the catalog and batch endpoints are \<^verbatim>\<open>nlohmann::json\<close> values.
  An object is a \<^verbatim>\<open>std::map\<close> from keys to values: it is kept here as the list of
  its members in iteration order. The payload of a floating point number is never
  inspected by the code modelled here and is kept as a pair of integers.
\<close>

datatype json =
    JNull
  | JBool bool
  | JUnsigned nat
  | JInteger int
  | JFloat int int
  | JString string
  | JArray "json list"
  | JObject "(string \<times> json) list"

fun type_name :: "json \<Rightarrow> string" where
  "type_name JNull = ''null''"
| "type_name (JBool b) = ''boolean''"
| "type_name (JUnsigned n) = ''number''"
| "type_name (JInteger i) = ''number''"
| "type_name (JFloat m e) = ''number''"
| "type_name (JString s) = ''string''"
| "type_name (JArray xs) = ''array''"
| "type_name (JObject kvs) = ''object''"

fun is_array :: "json \<Rightarrow> bool" where
  "is_array (JArray xs) = True"
| "is_array j = False"

fun is_object :: "json \<Rightarrow> bool" where
  "is_object (JObject kvs) = True"
| "is_object j = False"

fun is_string :: "json \<Rightarrow> bool" where
  "is_string (JString s) = True"
| "is_string j = False"

fun is_boolean :: "json \<Rightarrow> bool" where
  "is_boolean (JBool b) = True"
| "is_boolean j = False"

fun is_number_unsigned :: "json \<Rightarrow> bool" where
  "is_number_unsigned (JUnsigned n) = True"
| "is_number_unsigned j = False"

text \<open>\<^verbatim>\<open>std::to_string\<close> of an unsigned value: its decimal digits.\<close>

definition digit_char :: "nat \<Rightarrow> char" where
  "digit_char d = char_of (48 + d)"

function to_string :: "nat \<Rightarrow> string" where
  "to_string n = (if n < 10 then [digit_char n] else to_string (n div 10) @ [digit_char (n mod 10)])"
  by pat_completeness auto
termination
  by (relation "measure (\<lambda>n. n)") auto

declare to_string.simps [simp del]

text \<open>
  \<^verbatim>\<open>json.items()\<close>: the members of an object with their keys, the elements of an
  array with their indices as keys, nothing for \<^verbatim>\<open>null\<close>, and the value itself
  (under the empty key) for any other primitive.
\<close>

fun items :: "json \<Rightarrow> (string \<times> json) list" where
  "items JNull = []"
| "items (JArray xs) = zip (map to_string [0..<length xs]) xs"
| "items (JObject kvs) = kvs"
| "items j = [([], j)]"

section \<open>Errors\<close>

text \<open>
  Every \<^verbatim>\<open>throw\<close> of the source is a value of this type. \<open>MissingKey\<close> and the two
  \<open>TypeMismatch\<close> errors are the \<^verbatim>\<open>std::runtime_error\<close>s built by the helpers of the
  same names (the fields are the parts of the message); \<open>JsonTypeError\<close> is
  \<^verbatim>\<open>nlohmann::json::type_error\<close> 302, raised by a conversion of a value of the wrong
  type; \<open>KeyUnset\<close> and \<open>EnvKeyUnset\<close> are the errors of the builder; \<open>External\<close> stands
  for an error raised by code called from here (the HTTP client, \<^verbatim>\<open>FromString\<close>).
\<close>

datatype error =
    MissingKey string string
  | TypeMismatch string string string
  | TypeMismatchAt string string string json
  | JsonTypeError string
  | KeyUnset
  | EnvKeyUnset
  | External string

text \<open>Sequencing of calls that may throw: the first error ends the computation.\<close>

definition thenR :: "error + 'a \<Rightarrow> ('a \<Rightarrow> error + 'b) \<Rightarrow> error + 'b" where
  "thenR m f = (case m of Inl e \<Rightarrow> Inl e | Inr x \<Rightarrow> f x)"

text \<open>A range-for loop whose body may throw and otherwise appends one element.\<close>

fun each :: "('a \<Rightarrow> error + 'b) \<Rightarrow> 'a list \<Rightarrow> error + 'b list" where
  "each f [] = Inr []"
| "each f (x # xs) = thenR (f x) (\<lambda>y. thenR (each f xs) (\<lambda>ys. Inr (y # ys)))"

text \<open>The implicit conversion of a JSON value to \<^verbatim>\<open>std::string\<close>.\<close>

fun get_string :: "json \<Rightarrow> error + string" where
  "get_string (JString s) = Inr s"
| "get_string j = Inl (JsonTypeError (type_name j))"

section \<open>Request parameters\<close>

text \<open>
  \<^verbatim>\<open>httplib::Params\<close> is a multimap from names to values: \<^verbatim>\<open>emplace\<close> always adds an
  entry. It is kept as the list of its entries in the order they were added; the
  multimap's ordering by key is not modelled.
\<close>

type_synonym Params = "(string \<times> string) list"

definition emplace :: "Params \<Rightarrow> string \<Rightarrow> string \<Rightarrow> Params" where
  "emplace params k v = params @ [(k, v)]"

definition SetIfNotEmpty :: "Params \<Rightarrow> string \<Rightarrow> string \<Rightarrow> Params" where
  "SetIfNotEmpty params k v = (if v \<noteq> [] then emplace params k v else params)"

text \<open>The accumulation step of the two vector overloads, and the fold over the vector.\<close>

definition join_step :: "string \<Rightarrow> string \<Rightarrow> string" where
  "join_step acc str = (if acc = [] then str else acc @ '','' @ str)"

definition accumulate :: "string list \<Rightarrow> string" where
  "accumulate strings = foldl join_step [] strings"

definition SetIfNotEmpty_strings :: "Params \<Rightarrow> string \<Rightarrow> string list \<Rightarrow> Params" where
  "SetIfNotEmpty_strings params k strings =
     (if strings \<noteq> [] then emplace params k (accumulate strings) else params)"

definition SetIfNotEmpty_states :: "('s \<Rightarrow> string) \<Rightarrow> Params \<Rightarrow> string \<Rightarrow> 's list \<Rightarrow> Params" where
  "SetIfNotEmpty_states ToString params k states =
     (if states \<noteq> [] then emplace params k (accumulate (map ToString states)) else params)"

definition SetIfPositive :: "Params \<Rightarrow> string \<Rightarrow> nat \<Rightarrow> Params" where
  "SetIfPositive params k v = (if v > 0 then emplace params k (to_string v) else params)"

section \<open>Parsing responses\<close>

definition CheckedAt :: "string \<Rightarrow> json \<Rightarrow> string \<Rightarrow> error + json" where
  "CheckedAt endpoint j k =
     (case j of
        JObject kvs \<Rightarrow>
          (case map_of kvs k of
             Some v \<Rightarrow> Inr v
           | None \<Rightarrow> Inl (MissingKey endpoint k))
      | _ \<Rightarrow> Inl (MissingKey endpoint k))"

text \<open>
  \<^verbatim>\<open>databento::FromString<T>\<close> is declared outside the files at hand: the parser of
  each enumeration is a parameter. In the four scalar \<^verbatim>\<open>ParseAt\<close> specialisations
  the value is converted after its type has been checked, so the check and the
  conversion are one case distinction.
\<close>

definition FromCheckedAtString ::
  "(string \<Rightarrow> error + 'e) \<Rightarrow> string \<Rightarrow> json \<Rightarrow> string \<Rightarrow> error + 'e" where
  "FromCheckedAtString FromString endpoint j k =
     thenR (CheckedAt endpoint j k) (\<lambda>val_json.
       if \<not> is_string val_json
       then Inl (TypeMismatch endpoint (k @ '' string'') (type_name val_json))
       else thenR (get_string val_json) FromString)"

definition ParseAt_bool :: "string \<Rightarrow> json \<Rightarrow> string \<Rightarrow> error + bool" where
  "ParseAt_bool endpoint j k =
     thenR (CheckedAt endpoint j k) (\<lambda>val_json.
       case val_json of
         JBool b \<Rightarrow> Inr b
       | _ \<Rightarrow> Inl (TypeMismatch endpoint (k @ '' bool'') (type_name val_json)))"

definition ParseAt_string :: "string \<Rightarrow> json \<Rightarrow> string \<Rightarrow> error + string" where
  "ParseAt_string endpoint j k =
     thenR (CheckedAt endpoint j k) (\<lambda>val_json.
       case val_json of
         JString s \<Rightarrow> Inr s
       | _ \<Rightarrow> Inl (TypeMismatch endpoint (k @ '' string'') (type_name val_json)))"

definition ParseAt_size_t :: "string \<Rightarrow> json \<Rightarrow> string \<Rightarrow> error + nat" where
  "ParseAt_size_t endpoint j k =
     thenR (CheckedAt endpoint j k) (\<lambda>val_json.
       case val_json of
         JUnsigned n \<Rightarrow> Inr n
       | _ \<Rightarrow> Inl (TypeMismatch endpoint (k @ '' unsigned number'') (type_name val_json)))"

definition ParseAt_EpochNanos :: "string \<Rightarrow> json \<Rightarrow> string \<Rightarrow> error + nat" where
  "ParseAt_EpochNanos endpoint j k =
     thenR (CheckedAt endpoint j k) (\<lambda>val_json.
       case val_json of
         JUnsigned n \<Rightarrow> Inr n
       | _ \<Rightarrow> Inl (TypeMismatch endpoint (k @ '' unsigned number'') (type_name val_json)))"

text \<open>
  The specialisation for \<^verbatim>\<open>std::vector<std::string>\<close>. The value under the key is
  looked up and checked to be an array; the error and the loop are both given
  \<^verbatim>\<open>json\<close>, the object that was passed in, and each value the loop visits is
  converted to a string.
\<close>

definition ParseAt_strings :: "string \<Rightarrow> json \<Rightarrow> string \<Rightarrow> error + string list" where
  "ParseAt_strings endpoint j k =
     thenR (CheckedAt endpoint j k) (\<lambda>symbols_json.
       if \<not> is_array symbols_json
       then Inl (TypeMismatch endpoint (k @ '' array'') (type_name j))
       else each (\<lambda>item. get_string (snd item)) (items j))"

text \<open>
  \<^verbatim>\<open>BatchJob\<close> is declared in \<^verbatim>\<open>batch.hpp\<close>, outside the files at hand; its fields
  are the ones \<^verbatim>\<open>Parse\<close> assigns, \<^verbatim>\<open>id\<close> taken as a string like \<^verbatim>\<open>user_id\<close>.
  Sizes and nanosecond time stamps are unsigned 64-bit values, kept as naturals:
  no arithmetic is done on them.
\<close>

record ('st, 'sc, 'co, 'du, 'pa, 'de) BatchJob =
  id_field :: string
  user_id :: string
  bill_id :: string
  dataset :: string
  symbols :: "string list"
  stype_in :: 'st
  stype_out :: 'st
  schema :: 'sc
  start :: nat
  end_field :: nat
  limit :: nat
  compression :: 'co
  split_duration :: 'du
  split_size :: nat
  split_symbols :: bool
  packaging :: 'pa
  delivery :: 'de
  is_full_book :: bool
  is_example :: bool
  record_count :: nat
  billed_size :: nat
  actual_size :: nat
  package_size :: nat

record ('st, 'sc, 'co, 'du, 'pa, 'de) FromString =
  FromString_SType :: "string \<Rightarrow> error + 'st"
  FromString_Schema :: "string \<Rightarrow> error + 'sc"
  FromString_Compression :: "string \<Rightarrow> error + 'co"
  FromString_DurationInterval :: "string \<Rightarrow> error + 'du"
  FromString_Packaging :: "string \<Rightarrow> error + 'pa"
  FromString_Delivery :: "string \<Rightarrow> error + 'de"

definition Parse ::
  "('st, 'sc, 'co, 'du, 'pa, 'de) FromString \<Rightarrow> string \<Rightarrow> json \<Rightarrow>
   error + ('st, 'sc, 'co, 'du, 'pa, 'de) BatchJob" where
  "Parse fs endpoint j =
    (if \<not> is_object j then Inl (TypeMismatch endpoint ''object'' (type_name j)) else
     thenR (thenR (CheckedAt endpoint j ''id'') get_string) (\<lambda>v_id.
     thenR (ParseAt_string endpoint j ''user_id'') (\<lambda>v_user_id.
     thenR (ParseAt_string endpoint j ''bill_id'') (\<lambda>v_bill_id.
     thenR (ParseAt_string endpoint j ''dataset'') (\<lambda>v_dataset.
     thenR (ParseAt_strings endpoint j ''symbols'') (\<lambda>v_symbols.
     thenR (FromCheckedAtString (FromString_SType fs) endpoint j ''stype_in'') (\<lambda>v_stype_in.
     thenR (FromCheckedAtString (FromString_SType fs) endpoint j ''stype_out'') (\<lambda>v_stype_out.
     thenR (FromCheckedAtString (FromString_Schema fs) endpoint j ''schema'') (\<lambda>v_schema.
     thenR (ParseAt_EpochNanos endpoint j ''start'') (\<lambda>v_start.
     thenR (ParseAt_EpochNanos endpoint j ''end'') (\<lambda>v_end.
     thenR (ParseAt_size_t endpoint j ''limit'') (\<lambda>v_limit.
     thenR (FromCheckedAtString (FromString_Compression fs) endpoint j ''compression'') (\<lambda>v_compression.
     thenR (FromCheckedAtString (FromString_DurationInterval fs) endpoint j ''split_duration'') (\<lambda>v_split_duration.
     thenR (ParseAt_size_t endpoint j ''split_size'') (\<lambda>v_split_size.
     thenR (ParseAt_bool endpoint j ''split_symbols'') (\<lambda>v_split_symbols.
     thenR (FromCheckedAtString (FromString_Packaging fs) endpoint j ''packaging'') (\<lambda>v_packaging.
     thenR (FromCheckedAtString (FromString_Delivery fs) endpoint j ''delivery'') (\<lambda>v_delivery.
     thenR (ParseAt_bool endpoint j ''is_full_book'') (\<lambda>v_is_full_book.
     thenR (ParseAt_bool endpoint j ''is_example'') (\<lambda>v_is_example.
     thenR (ParseAt_size_t endpoint j ''record_count'') (\<lambda>v_record_count.
     thenR (ParseAt_size_t endpoint j ''billed_size'') (\<lambda>v_billed_size.
     thenR (ParseAt_size_t endpoint j ''actual_size'') (\<lambda>v_actual_size.
     thenR (ParseAt_size_t endpoint j ''package_size'') (\<lambda>v_package_size.
     Inr \<lparr> id_field = v_id, user_id = v_user_id, bill_id = v_bill_id, dataset = v_dataset,
           symbols = v_symbols, stype_in = v_stype_in, stype_out = v_stype_out,
           schema = v_schema, start = v_start, end_field = v_end, limit = v_limit,
           compression = v_compression, split_duration = v_split_duration,
           split_size = v_split_size, split_symbols = v_split_symbols,
           packaging = v_packaging, delivery = v_delivery, is_full_book = v_is_full_book,
           is_example = v_is_example, record_count = v_record_count,
           billed_size = v_billed_size, actual_size = v_actual_size,
           package_size = v_package_size \<rparr>))))))))))))))))))))))))"

section \<open>Endpoint operations\<close>

text \<open>
  \<^verbatim>\<open>HttpClient\<close> and \<^verbatim>\<open>kApiVersionStr\<close> are declared outside the files at hand. The
  client is a parameter: a request either throws or returns the parsed body.
\<close>

record HttpClient =
  GetJson :: "string \<Rightarrow> Params \<Rightarrow> error + json"
  PostJson :: "string \<Rightarrow> Params \<Rightarrow> error + json"

definition BuildBatchPath :: "string \<Rightarrow> string \<Rightarrow> string" where
  "BuildBatchPath kApiVersionStr slug = ''/v'' @ kApiVersionStr @ ''/batch'' @ slug"

definition BuildMetadataPath :: "string \<Rightarrow> string \<Rightarrow> string" where
  "BuildMetadataPath kApiVersionStr slug = ''/v'' @ kApiVersionStr @ ''/metadata'' @ slug"

definition BuildSymbologyPath :: "string \<Rightarrow> string \<Rightarrow> string" where
  "BuildSymbologyPath kApiVersionStr slug = ''/v'' @ kApiVersionStr @ ''/symbology'' @ slug"

definition BatchListJobs_params :: "('s \<Rightarrow> string) \<Rightarrow> 's list \<Rightarrow> string \<Rightarrow> Params" where
  "BatchListJobs_params ToString states since =
     SetIfNotEmpty (SetIfNotEmpty_states ToString [] ''states'' states) ''since'' since"

text \<open>
  \<^verbatim>\<open>BatchListJobs\<close>. When the response is not an array the error value is built by
  \<^verbatim>\<open>::TypeMismatch\<close> and dropped: the statement has no \<^verbatim>\<open>throw\<close>, and the loop over
  \<^verbatim>\<open>json.items()\<close> follows in either case.
\<close>

definition BatchListJobs ::
  "('st, 'sc, 'co, 'du, 'pa, 'de) FromString \<Rightarrow> ('s \<Rightarrow> string) \<Rightarrow> string \<Rightarrow> HttpClient \<Rightarrow>
   's list \<Rightarrow> string \<Rightarrow> error + ('st, 'sc, 'co, 'du, 'pa, 'de) BatchJob list" where
  "BatchListJobs fs ToString kApiVersionStr client states since =
     thenR (GetJson client (BuildBatchPath kApiVersionStr ''.list_jobs'')
              (BatchListJobs_params ToString states since)) (\<lambda>j.
       let dropped = (if \<not> is_array j
                      then [TypeMismatch ''BatchListJobs'' ''array'' (type_name j)] else [])
       in each (\<lambda>job_json. Parse fs ''BatchListJobs'' (snd job_json)) (items j))"

definition MetadataListDatasets_params :: "string \<Rightarrow> string \<Rightarrow> Params" where
  "MetadataListDatasets_params start_date end_date =
     SetIfNotEmpty (SetIfNotEmpty [] ''start_date'' start_date) ''end_date'' end_date"

definition MetadataListDatasets ::
  "string \<Rightarrow> HttpClient \<Rightarrow> string \<Rightarrow> string \<Rightarrow> error + string list" where
  "MetadataListDatasets kApiVersionStr client start_date end_date =
     thenR (GetJson client (BuildMetadataPath kApiVersionStr ''.list_datasets'')
              (MetadataListDatasets_params start_date end_date)) (\<lambda>j.
       if \<not> is_array j then Inl (TypeMismatch ''ListDatasets'' ''array'' (type_name j))
       else each (\<lambda>item.
              if \<not> is_string (snd item)
              then Inl (TypeMismatchAt ''ListDatasets'' ''string'' (fst item) (snd item))
              else get_string (snd item)) (items j))"

text \<open>
  The parameter sets of the remaining request-building operations. \<^verbatim>\<open>ToString\<close> of
  each enumeration and of a time point is declared outside the files at hand and
  is a parameter.
\<close>

definition BatchSubmitJob_params ::
  "('sc \<Rightarrow> string) \<Rightarrow> ('du \<Rightarrow> string) \<Rightarrow> ('pa \<Rightarrow> string) \<Rightarrow> ('de \<Rightarrow> string) \<Rightarrow>
   ('st \<Rightarrow> string) \<Rightarrow> string \<Rightarrow> 'sc \<Rightarrow> string list \<Rightarrow> string \<Rightarrow> string \<Rightarrow> 'du \<Rightarrow> nat \<Rightarrow>
   'pa \<Rightarrow> 'de \<Rightarrow> 'st \<Rightarrow> 'st \<Rightarrow> nat \<Rightarrow> Params" where
  "BatchSubmitJob_params ToString_Schema ToString_DurationInterval ToString_Packaging
       ToString_Delivery ToString_SType dataset_arg schema_arg symbols_arg start_arg end_arg
       split_duration_arg split_size_arg packaging_arg delivery_arg stype_in_arg stype_out_arg
       limit_arg =
     SetIfNotEmpty_strings
       (SetIfPositive
         (SetIfPositive
           [(''dataset'', dataset_arg),
            (''schema'', ToString_Schema schema_arg),
            (''encoding'', ''dbz''),
            (''start'', start_arg),
            (''end'', end_arg),
            (''split_duration'', ToString_DurationInterval split_duration_arg),
            (''packaging'', ToString_Packaging packaging_arg),
            (''delivery'', ToString_Delivery delivery_arg),
            (''stype_in'', ToString_SType stype_in_arg),
            (''stype_out'', ToString_SType stype_out_arg)]
           ''split_size'' split_size_arg)
         ''limit'' limit_arg)
       ''symbols'' symbols_arg"

definition MetadataListSchemas_params :: "string \<Rightarrow> string \<Rightarrow> string \<Rightarrow> Params" where
  "MetadataListSchemas_params dataset_arg start_date end_date =
     SetIfNotEmpty (SetIfNotEmpty [(''dataset'', dataset_arg)] ''start_date'' start_date)
       ''end_date'' end_date"

definition MetadataGetBillableSize_params ::
  "('sc \<Rightarrow> string) \<Rightarrow> ('st \<Rightarrow> string) \<Rightarrow> string \<Rightarrow> string \<Rightarrow> string \<Rightarrow> string list \<Rightarrow>
   'sc \<Rightarrow> 'st \<Rightarrow> nat \<Rightarrow> Params" where
  "MetadataGetBillableSize_params ToString_Schema ToString_SType dataset_arg start_arg end_arg
       symbols_arg schema_arg stype_in_arg limit_arg =
     SetIfNotEmpty_strings
       (SetIfPositive
         (SetIfNotEmpty
           (SetIfNotEmpty
             [(''dataset'', dataset_arg),
              (''schema'', ToString_Schema schema_arg),
              (''stype_in'', ToString_SType stype_in_arg)]
             ''start'' start_arg)
           ''end'' end_arg)
         ''limit'' limit_arg)
       ''symbols'' symbols_arg"

definition MetadataGetCost_params ::
  "('fm \<Rightarrow> string) \<Rightarrow> ('sc \<Rightarrow> string) \<Rightarrow> ('st \<Rightarrow> string) \<Rightarrow> string \<Rightarrow> string \<Rightarrow> string \<Rightarrow>
   'fm \<Rightarrow> string list \<Rightarrow> 'sc \<Rightarrow> 'st \<Rightarrow> nat \<Rightarrow> Params" where
  "MetadataGetCost_params ToString_FeedMode ToString_Schema ToString_SType dataset_arg start_arg
       end_arg mode_arg symbols_arg schema_arg stype_in_arg limit_arg =
     SetIfPositive
       (SetIfNotEmpty_strings
         (SetIfNotEmpty
           (SetIfNotEmpty
             [(''dataset'', dataset_arg),
              (''mode'', ToString_FeedMode mode_arg),
              (''schema'', ToString_Schema schema_arg),
              (''stype_in'', ToString_SType stype_in_arg)]
             ''start'' start_arg)
           ''end'' end_arg)
         ''symbols'' symbols_arg)
       ''limit'' limit_arg"

text \<open>
  \<^verbatim>\<open>SymbologyResolve\<close>: the overload without \<^verbatim>\<open>default_value\<close> passes the empty
  string for it, and the entry is part of the initialiser list.
\<close>

definition SymbologyResolve_params ::
  "('st \<Rightarrow> string) \<Rightarrow> string \<Rightarrow> string list \<Rightarrow> 'st \<Rightarrow> 'st \<Rightarrow> string \<Rightarrow> string \<Rightarrow> string \<Rightarrow>
   Params" where
  "SymbologyResolve_params ToString_SType dataset_arg symbols_arg stype_in_arg stype_out_arg
       start_date end_date default_value =
     SetIfNotEmpty_strings
       [(''dataset'', dataset_arg),
        (''stype_in'', ToString_SType stype_in_arg),
        (''stype_out'', ToString_SType stype_out_arg),
        (''start_date'', start_date),
        (''end_date'', end_date),
        (''default_value'', default_value)]
       ''symbols'' symbols_arg"

definition SymbologyResolve_params_6 ::
  "('st \<Rightarrow> string) \<Rightarrow> string \<Rightarrow> string list \<Rightarrow> 'st \<Rightarrow> 'st \<Rightarrow> string \<Rightarrow> string \<Rightarrow> Params" where
  "SymbologyResolve_params_6 ToString_SType dataset_arg symbols_arg stype_in_arg stype_out_arg
       start_date end_date =
     SymbologyResolve_params ToString_SType dataset_arg symbols_arg stype_in_arg stype_out_arg
       start_date end_date []"

definition TimeseriesStream_params ::
  "('sc \<Rightarrow> string) \<Rightarrow> ('st \<Rightarrow> string) \<Rightarrow> ('tp \<Rightarrow> string) \<Rightarrow> string \<Rightarrow> string list \<Rightarrow> 'sc \<Rightarrow>
   'tp \<Rightarrow> 'tp \<Rightarrow> 'st \<Rightarrow> 'st \<Rightarrow> nat \<Rightarrow> Params" where
  "TimeseriesStream_params ToString_Schema ToString_SType ToString_time dataset_arg symbols_arg
       schema_arg start_arg end_arg stype_in_arg stype_out_arg limit_arg =
     SetIfPositive
       (SetIfNotEmpty_strings
         [(''dataset'', dataset_arg),
          (''schema'', ToString_Schema schema_arg),
          (''stype_in'', ToString_SType stype_in_arg),
          (''stype_out'', ToString_SType stype_out_arg),
          (''start'', ToString_time start_arg),
          (''end'', ToString_time end_arg)]
         ''symbols'' symbols_arg)
       ''limit'' limit_arg"

text \<open>The values a parameter set holds under one name, in the order they were added.\<close>

definition values_of :: "Params \<Rightarrow> string \<Rightarrow> string list" where
  "values_of params k = map snd (filter (\<lambda>p. fst p = k) params)"

text \<open>
  What "a single comma-separated value preserving input order" means: the
  elements, each two neighbours separated by one comma.
\<close>

fun comma_separated :: "string list \<Rightarrow> string" where
  "comma_separated [] = []"
| "comma_separated [x] = x"
| "comma_separated (x # y # ys) = x @ '','' @ comma_separated (y # ys)"

section \<open>The builder\<close>

text \<open>
  \<^verbatim>\<open>HistoricalGateway\<close> is declared outside the files at hand; \<^verbatim>\<open>Nearest\<close> is the one
  enumerator the source names, the others are kept abstract. \<^verbatim>\<open>UrlFromGateway\<close> is a
  parameter for the same reason. A \<^verbatim>\<open>Historical\<close> is known by what its two getters
  return; its HTTP client is built from the same two strings.
\<close>

datatype 'g HistoricalGateway = Nearest | OtherGateway 'g

record Historical =
  key :: string
  gateway :: string

record 'g HistoricalBuilder =
  key_member :: string
  gateway_member :: "'g HistoricalGateway"

definition Historical_ctor :: "('g HistoricalGateway \<Rightarrow> string) \<Rightarrow> string \<Rightarrow> 'g HistoricalGateway \<Rightarrow> Historical" where
  "Historical_ctor UrlFromGateway k g = \<lparr> key = k, gateway = UrlFromGateway g \<rparr>"

definition HistoricalBuilder_default :: "'g HistoricalBuilder" where
  "HistoricalBuilder_default = \<lparr> key_member = [], gateway_member = Nearest \<rparr>"

definition HistoricalBuilder_key :: "string \<Rightarrow> 'g HistoricalBuilder \<Rightarrow> 'g HistoricalBuilder" where
  "HistoricalBuilder_key k b = b\<lparr> key_member := k \<rparr>"

text \<open>\<^verbatim>\<open>std::getenv\<close> returns a null pointer (\<open>None\<close>) when the variable is unset.\<close>

definition keyFromEnv :: "string option \<Rightarrow> 'g HistoricalBuilder \<Rightarrow> error + 'g HistoricalBuilder" where
  "keyFromEnv env_key b =
     (case env_key of
        None \<Rightarrow> Inl EnvKeyUnset
      | Some k \<Rightarrow> Inr (HistoricalBuilder_key k b))"

definition HistoricalBuilder_gateway ::
  "'g HistoricalGateway \<Rightarrow> 'g HistoricalBuilder \<Rightarrow> 'g HistoricalBuilder" where
  "HistoricalBuilder_gateway g b = b\<lparr> gateway_member := g \<rparr>"

text \<open>
  \<^verbatim>\<open>Build\<close> hands the key to the constructor of \<^verbatim>\<open>Historical\<close> by \<^verbatim>\<open>std::move(key_)\<close>: the
  builder goes on to exist with its key moved out, which leaves the string empty
  in the implementations of the standard library. The gateway is copied. When
  \<^verbatim>\<open>Build\<close> throws, the builder is as it was.
\<close>

definition Build ::
  "('g HistoricalGateway \<Rightarrow> string) \<Rightarrow> 'g HistoricalBuilder \<Rightarrow>
   error + Historical \<times> 'g HistoricalBuilder" where
  "Build UrlFromGateway b =
     (if key_member b = [] then Inl KeyUnset
      else Inr (Historical_ctor UrlFromGateway (key_member b) (gateway_member b),
                b\<lparr> key_member := [] \<rparr>))"

text \<open>
  A chain of calls on a default-constructed builder. An exception thrown by
  \<^verbatim>\<open>keyFromEnv\<close> or by \<^verbatim>\<open>Build\<close> ends the chain; the \<^verbatim>\<open>Historical\<close> an earlier \<^verbatim>\<open>Build\<close>
  of the chain returned is not looked at.
\<close>

datatype 'g builder_call =
  CallKey string | CallKeyFromEnv | CallGateway "'g HistoricalGateway" | CallBuild

fun builder_calls ::
  "string option \<Rightarrow> ('g HistoricalGateway \<Rightarrow> string) \<Rightarrow> 'g builder_call list \<Rightarrow>
   'g HistoricalBuilder \<Rightarrow> error + 'g HistoricalBuilder" where
  "builder_calls env_key U [] b = Inr b"
| "builder_calls env_key U (CallKey k # cs) b =
     builder_calls env_key U cs (HistoricalBuilder_key k b)"
| "builder_calls env_key U (CallKeyFromEnv # cs) b =
     thenR (keyFromEnv env_key b) (builder_calls env_key U cs)"
| "builder_calls env_key U (CallGateway g # cs) b =
     builder_calls env_key U cs (HistoricalBuilder_gateway g b)"
| "builder_calls env_key U (CallBuild # cs) b =
     thenR (Build U b) (\<lambda>built. builder_calls env_key U cs (snd built))"

text \<open>
  The key and the gateway a builder holds after a chain of calls, read off the
  calls alone. The key is the argument of the last call that set one, and it is
  empty when there was none or when a \<^verbatim>\<open>Build\<close> came after it; there is none
  (\<open>None\<close>) when the chain threw: at a \<^verbatim>\<open>keyFromEnv\<close> with the variable unset, or at
  a \<^verbatim>\<open>Build\<close> with the key empty. The gateway is the argument of the last call that
  set one, \<open>Nearest\<close> when there was none.
\<close>

fun current_key :: "string option \<Rightarrow> 'g builder_call list \<Rightarrow> string \<Rightarrow> string option" where
  "current_key env_key [] k = Some k"
| "current_key env_key (CallKey k' # cs) k = current_key env_key cs k'"
| "current_key env_key (CallKeyFromEnv # cs) k =
     (case env_key of None \<Rightarrow> None | Some k' \<Rightarrow> current_key env_key cs k')"
| "current_key env_key (CallGateway g # cs) k = current_key env_key cs k"
| "current_key env_key (CallBuild # cs) k =
     (if k = [] then None else current_key env_key cs [])"

fun gateway_set :: "'g builder_call list \<Rightarrow> 'g HistoricalGateway \<Rightarrow> 'g HistoricalGateway" where
  "gateway_set [] g = g"
| "gateway_set (CallGateway g' # cs) g = gateway_set cs g'"
| "gateway_set (c # cs) g = gateway_set cs g"

section \<open>Concrete inputs\<close>

text \<open>
  A complete job description as the batch endpoints return it, its members in key
  order, and the simplest parsers of the enumerations (every name is accepted).
\<close>

definition job_json :: json where
  "job_json = JObject
     [(''actual_size'', JUnsigned 0), (''bill_id'', JString ''b1''), (''billed_size'', JUnsigned 0),
      (''compression'', JString ''zstd''), (''dataset'', JString ''GLBX.MDP3''),
      (''delivery'', JString ''download''), (''end'', JUnsigned 2), (''id'', JString ''job1''),
      (''is_example'', JBool False), (''is_full_book'', JBool False), (''limit'', JUnsigned 0),
      (''package_size'', JUnsigned 0), (''packaging'', JString ''none''),
      (''record_count'', JUnsigned 0), (''schema'', JString ''trades''),
      (''split_duration'', JString ''day''), (''split_size'', JUnsigned 0),
      (''split_symbols'', JBool False), (''start'', JUnsigned 1),
      (''stype_in'', JString ''native''), (''stype_out'', JString ''product_id''),
      (''symbols'', JArray [JString ''ESH3'', JString ''CLM3'']), (''user_id'', JString ''u1'')]"

definition FromString_id :: "(string, string, string, string, string, string) FromString" where
  "FromString_id = \<lparr> FromString_SType = Inr, FromString_Schema = Inr,
      FromString_Compression = Inr, FromString_DurationInterval = Inr,
      FromString_Packaging = Inr, FromString_Delivery = Inr \<rparr>"

text \<open>A client whose every request is answered by the same body.\<close>

definition answering :: "json \<Rightarrow> HttpClient" where
  "answering j = \<lparr> GetJson = (\<lambda>path params. Inr j), PostJson = (\<lambda>path params. Inr j) \<rparr>"

section \<open>The historical stream\<close>

text \<open>
  \<^verbatim>\<open>TimeseriesStream\<close> runs two threads. The thread named \<^verbatim>\<open>stream\<close> reads the body of
  the response chunk by chunk and hands each chunk to the parser; the calling thread
  takes the metadata and then the records out of the parser and hands them to the
  callbacks of the user. The threads share the parser and the flag
  \<^verbatim>\<open>should_continue\<close>. The model is an interleaving of atomic steps: a step of a
  thread is one call of the parser, one load or store of the flag, or one
  invocation of a callback, so that the other thread can take its steps between
  the return of the parser and the invocation of the callback.

  \<^verbatim>\<open>DbzParser\<close>, \<^verbatim>\<open>Metadata\<close>, \<^verbatim>\<open>Record\<close>, \<^verbatim>\<open>KeepGoing\<close> and the callback types are
  declared outside the files at hand. The parser is a parameter: a state and four
  operations on it. A call of \<^verbatim>\<open>ParseMetadata\<close> or \<^verbatim>\<open>ParseRecord\<close> returns a value,
  throws, or has to wait for the other thread. Of the metadata only the record count
  is read, a \<^verbatim>\<open>std::size_t\<close>. The loop counter is declared \<^verbatim>\<open>0UL\<close>, an
  \<^verbatim>\<open>unsigned long\<close>: its increment wraps around at \<open>2 ^ ulong_width\<close>, where the
  width is 64, or 32 on the platforms whose \<^verbatim>\<open>long\<close> has 32 bits.
\<close>

datatype KeepGoing = Continue | Stop

datatype 'a reply = Ready 'a | Throws error | Blocks

record Metadata =
  record_count :: nat

record ('c, 'r, 'd) DbzParser =
  PassBytes :: "'c \<Rightarrow> 'd \<Rightarrow> 'd"
  EndInput :: "'d \<Rightarrow> 'd"
  ParseMetadata :: "'d \<Rightarrow> Metadata reply \<times> 'd"
  ParseRecord :: "'d \<Rightarrow> 'r reply \<times> 'd"

text \<open>
  The callbacks are code of the user: they may keep a state of their own (\<open>'u\<close>),
  and they may throw. They do not touch the parser or the flag.
\<close>

record ('c, 'r, 'd, 'u) setting =
  parser_ops :: "('c, 'r, 'd) DbzParser"
  metadata_callback :: "Metadata \<Rightarrow> 'u \<Rightarrow> error + 'u"
  callback :: "'r \<Rightarrow> 'u \<Rightarrow> error + KeepGoing \<times> 'u"
  transfer_error :: "error option"
  ulong_width :: nat

text \<open>
  Where each thread stands. The calling thread: about to call \<^verbatim>\<open>ParseMetadata\<close>;
  holding the metadata, about to invoke the metadata callback; at the head of the
  loop with the counter and the record count; holding a record, about to invoke
  the record callback; between the return of the callback and the assignment to
  \<^verbatim>\<open>should_continue\<close>; in \<^verbatim>\<open>stream.join()\<close>; returned to its caller; or left by an
  exception, with the statement that threw.
  The thread \<^verbatim>\<open>stream\<close>: inside \<^verbatim>\<open>GetRawStream\<close> waiting for the next chunk; inside
  the content receiver after \<^verbatim>\<open>PassBytes\<close>, about to load the flag; after
  \<^verbatim>\<open>GetRawStream\<close> returned, about to call \<^verbatim>\<open>EndInput\<close>; finished; or left by an
  exception thrown by \<^verbatim>\<open>GetRawStream\<close>.
\<close>

datatype thrower = InParseMetadata | InMetadataCallback | InParseRecord | InCallback

datatype 'r caller_pc =
    AtParseMetadata
  | AtMetadataCallback Metadata
  | AtLoop nat nat
  | AtCallback nat nat 'r
  | AtStore nat nat KeepGoing
  | AtJoin
  | Returned
  | Unwound thrower error

datatype stream_pc =
    InTransfer
  | InReceiver
  | AtEndInput
  | Finished
  | Escaped error

text \<open>What is observed of a run: the calls that were made, in the order they were made.\<close>

datatype 'r item = MetadataItem Metadata | RecordItem 'r

datatype ('c, 'r) event =
    Passed 'c
  | Ended
  | Decoded "'r item"
  | Delivered "'r item"
  | Joined

record ('c, 'r, 'd, 'u) state =
  body :: "'c list"
  dbz_parser :: 'd
  should_continue :: bool
  stream :: stream_pc
  caller :: "'r caller_pc"
  user :: 'u
  trace :: "('c, 'r) event list"

definition initial :: "'c list \<Rightarrow> 'd \<Rightarrow> 'u \<Rightarrow> ('c, 'r, 'd, 'u) state" where
  "initial chunks d u =
     \<lparr> body = chunks, dbz_parser = d, should_continue = True, stream = InTransfer,
       caller = AtParseMetadata, user = u, trace = [] \<rparr>"

text \<open>
  An exception that leaves the function of a \<^verbatim>\<open>std::thread\<close> calls \<^verbatim>\<open>std::terminate\<close>,
  and so does the destructor of a \<^verbatim>\<open>std::thread\<close> that is still joinable: the local
  \<^verbatim>\<open>stream\<close> is joined by the last statement of \<^verbatim>\<open>TimeseriesStream\<close> only, so an
  exception that leaves the body earlier destroys it joinable. In both cases the
  process is over and neither thread takes another step.
\<close>

fun escaped :: "stream_pc \<Rightarrow> bool" where
  "escaped (Escaped e) = True"
| "escaped pc = False"

fun unwound :: "'r caller_pc \<Rightarrow> bool" where
  "unwound (Unwound w e) = True"
| "unwound pc = False"

definition terminated :: "('c, 'r, 'd, 'u) state \<Rightarrow> bool" where
  "terminated s = (escaped (stream s) \<or> unwound (caller s))"

text \<open>
  Modelled from the spec: \<^verbatim>\<open>HttpClient::GetRawStream\<close> is missing from the files at
  hand. It performs a blocking chunked read and forwards each received chunk to the
  content receiver; a receiver that returns false cancels the transfer, which is
  not an error; when the body is through, the call returns, or throws if the
  transport failed (\<open>transfer_error\<close>). The receiver and what follows the call are
  the lambda of the source: \<^verbatim>\<open>PassBytes\<close>, then the load of \<^verbatim>\<open>should_continue\<close>; and
  \<^verbatim>\<open>EndInput\<close> once \<^verbatim>\<open>GetRawStream\<close> has returned.
\<close>

fun stream_at ::
  "('c, 'r, 'd, 'u) setting \<Rightarrow> stream_pc \<Rightarrow> ('c, 'r, 'd, 'u) state \<Rightarrow>
   ('c, 'r, 'd, 'u) state option" where
  "stream_at env InTransfer s =
     (case body s of
        c # cs \<Rightarrow>
          Some (s\<lparr> body := cs,
                   dbz_parser := PassBytes (parser_ops env) c (dbz_parser s),
                   stream := InReceiver,
                   trace := trace s @ [Passed c] \<rparr>)
      | [] \<Rightarrow>
          (case transfer_error env of
             None \<Rightarrow> Some (s\<lparr> stream := AtEndInput \<rparr>)
           | Some e \<Rightarrow> Some (s\<lparr> stream := Escaped e \<rparr>)))"
| "stream_at env InReceiver s =
     Some (s\<lparr> stream := (if should_continue s then InTransfer else AtEndInput) \<rparr>)"
| "stream_at env AtEndInput s =
     Some (s\<lparr> dbz_parser := EndInput (parser_ops env) (dbz_parser s),
              stream := Finished,
              trace := trace s @ [Ended] \<rparr>)"
| "stream_at env Finished s = None"
| "stream_at env (Escaped e) s = None"

definition stream_step ::
  "('c, 'r, 'd, 'u) setting \<Rightarrow> ('c, 'r, 'd, 'u) state \<Rightarrow> ('c, 'r, 'd, 'u) state option" where
  "stream_step env s = (if terminated s then None else stream_at env (stream s) s)"

text \<open>
  The calling thread, lines 626 to 632 of the source. A call that has to wait is
  no step. An invocation of a callback is entered in the trace when it is made,
  whether it returns or throws. \<^verbatim>\<open>stream.join()\<close> returns once the other thread has
  finished.
\<close>

fun caller_at ::
  "('c, 'r, 'd, 'u) setting \<Rightarrow> 'r caller_pc \<Rightarrow> ('c, 'r, 'd, 'u) state \<Rightarrow>
   ('c, 'r, 'd, 'u) state option" where
  "caller_at env AtParseMetadata s =
     (case ParseMetadata (parser_ops env) (dbz_parser s) of
        (Blocks, d) \<Rightarrow> None
      | (Throws e, d) \<Rightarrow>
          Some (s\<lparr> dbz_parser := d, caller := Unwound InParseMetadata e \<rparr>)
      | (Ready metadata, d) \<Rightarrow>
          Some (s\<lparr> dbz_parser := d, caller := AtMetadataCallback metadata,
                   trace := trace s @ [Decoded (MetadataItem metadata)] \<rparr>))"
| "caller_at env (AtMetadataCallback metadata) s =
     (case metadata_callback env metadata (user s) of
        Inl e \<Rightarrow>
          Some (s\<lparr> caller := Unwound InMetadataCallback e,
                   trace := trace s @ [Delivered (MetadataItem metadata)] \<rparr>)
      | Inr u \<Rightarrow>
          Some (s\<lparr> caller := AtLoop 0 (record_count metadata),
                   user := u,
                   trace := trace s @ [Delivered (MetadataItem metadata)] \<rparr>))"
| "caller_at env (AtLoop i n) s =
     (if i < n then
        (case ParseRecord (parser_ops env) (dbz_parser s) of
           (Blocks, d) \<Rightarrow> None
         | (Throws e, d) \<Rightarrow>
             Some (s\<lparr> dbz_parser := d, caller := Unwound InParseRecord e \<rparr>)
         | (Ready r, d) \<Rightarrow>
             Some (s\<lparr> dbz_parser := d, caller := AtCallback i n r,
                      trace := trace s @ [Decoded (RecordItem r)] \<rparr>))
      else Some (s\<lparr> caller := AtJoin \<rparr>))"
| "caller_at env (AtCallback i n r) s =
     (case callback env r (user s) of
        Inl e \<Rightarrow>
          Some (s\<lparr> caller := Unwound InCallback e,
                   trace := trace s @ [Delivered (RecordItem r)] \<rparr>)
      | Inr (keep_going, u) \<Rightarrow>
          Some (s\<lparr> caller := AtStore i n keep_going,
                   user := u,
                   trace := trace s @ [Delivered (RecordItem r)] \<rparr>))"
| "caller_at env (AtStore i n keep_going) s =
     Some (s\<lparr> should_continue := (keep_going = Continue),
              caller := AtLoop (Suc i mod 2 ^ ulong_width env) n \<rparr>)"
| "caller_at env AtJoin s =
     (if stream s = Finished
      then Some (s\<lparr> caller := Returned, trace := trace s @ [Joined] \<rparr>)
      else None)"
| "caller_at env Returned s = None"
| "caller_at env (Unwound w e) s = None"

definition caller_step ::
  "('c, 'r, 'd, 'u) setting \<Rightarrow> ('c, 'r, 'd, 'u) state \<Rightarrow> ('c, 'r, 'd, 'u) state option" where
  "caller_step env s = (if terminated s then None else caller_at env (caller s) s)"

text \<open>
  A run follows a schedule: the list of the threads whose turn it is. The turn of
  a thread that cannot take a step passes. Every interleaving of the two threads
  is the run of some schedule. \<open>moves\<close> counts the turns of a schedule at which a
  step was taken.
\<close>

datatype thread = StreamThread | CallerThread

definition can_step ::
  "('c, 'r, 'd, 'u) setting \<Rightarrow> thread \<Rightarrow> ('c, 'r, 'd, 'u) state \<Rightarrow> bool" where
  "can_step env t s =
     (case t of
        StreamThread \<Rightarrow> stream_step env s \<noteq> None
      | CallerThread \<Rightarrow> caller_step env s \<noteq> None)"

definition step ::
  "('c, 'r, 'd, 'u) setting \<Rightarrow> thread \<Rightarrow> ('c, 'r, 'd, 'u) state \<Rightarrow> ('c, 'r, 'd, 'u) state" where
  "step env t s =
     (case (case t of StreamThread \<Rightarrow> stream_step env s | CallerThread \<Rightarrow> caller_step env s) of
        None \<Rightarrow> s
      | Some s' \<Rightarrow> s')"

fun run ::
  "('c, 'r, 'd, 'u) setting \<Rightarrow> thread list \<Rightarrow> ('c, 'r, 'd, 'u) state \<Rightarrow> ('c, 'r, 'd, 'u) state" where
  "run env [] s = s"
| "run env (t # ts) s = run env ts (step env t s)"


text \<open>The items the parser returned, and the items the callbacks were invoked with.\<close>

fun decoded :: "('c, 'r) event list \<Rightarrow> 'r item list" where
  "decoded [] = []"
| "decoded (Decoded x # es) = x # decoded es"
| "decoded (e # es) = decoded es"

fun delivered :: "('c, 'r) event list \<Rightarrow> 'r item list" where
  "delivered [] = []"
| "delivered (Delivered x # es) = x # delivered es"
| "delivered (e # es) = delivered es"

fun metadata_invocations :: "'r item list \<Rightarrow> Metadata list" where
  "metadata_invocations [] = []"
| "metadata_invocations (MetadataItem m # xs) = m # metadata_invocations xs"
| "metadata_invocations (RecordItem r # xs) = metadata_invocations xs"

fun record_invocations :: "'r item list \<Rightarrow> 'r list" where
  "record_invocations [] = []"
| "record_invocations (RecordItem r # xs) = r # record_invocations xs"
| "record_invocations (MetadataItem m # xs) = record_invocations xs"

text \<open>
  What a list of invocations makes of the state of the user: each callback is
  applied to the state the one before it left, and the first that throws ends the
  list with its error. \<open>callbacks_result\<close> is the same read off a state of the run:
  the error of the callback that threw, or the state of the user.
\<close>

definition invoke :: "('c, 'r, 'd, 'u) setting \<Rightarrow> 'r item \<Rightarrow> 'u \<Rightarrow> error + 'u" where
  "invoke env x u =
     (case x of
        MetadataItem m \<Rightarrow> metadata_callback env m u
      | RecordItem r \<Rightarrow>
          (case callback env r u of
             Inl e \<Rightarrow> Inl e
           | Inr (keep_going, u') \<Rightarrow> Inr u'))"

definition replay :: "('c, 'r, 'd, 'u) setting \<Rightarrow> 'r item list \<Rightarrow> 'u \<Rightarrow> error + 'u" where
  "replay env xs u = foldl (\<lambda>acc x. thenR acc (invoke env x)) (Inr u) xs"

fun thrown :: "'r caller_pc \<Rightarrow> error option" where
  "thrown (Unwound InMetadataCallback e) = Some e"
| "thrown (Unwound InCallback e) = Some e"
| "thrown pc = None"

definition callbacks_result :: "('c, 'r, 'd, 'u) state \<Rightarrow> error + 'u" where
  "callbacks_result s = (case thrown (caller s) of Some e \<Rightarrow> Inl e | None \<Rightarrow> Inr (user s))"

text \<open>
  Modelled from the spec: the frame decoder (\<^verbatim>\<open>DbzParser\<close>) is missing from the files
  at hand. \<^verbatim>\<open>feed\<close> appends to the buffer and never fails; \<^verbatim>\<open>nextMetadata\<close> and
  \<^verbatim>\<open>nextRecord\<close> return the next frame in arrival order, suspend while the buffer is
  empty and the end of the input has not been signalled, and fail once it has;
  a frame of the wrong kind is a decode error. This instance is used for concrete
  runs only. A chunk is a list of whole frames here: how a frame splits over
  chunks plays no part in what follows.
\<close>

datatype 'r frame = MetadataFrame Metadata | RecordFrame 'r

record 'r decoder =
  buffer :: "'r frame list"
  end_of_input :: bool

definition feed :: "'r frame list \<Rightarrow> 'r decoder \<Rightarrow> 'r decoder" where
  "feed c d = d\<lparr> buffer := buffer d @ c \<rparr>"

definition signalEndOfInput :: "'r decoder \<Rightarrow> 'r decoder" where
  "signalEndOfInput d = d\<lparr> end_of_input := True \<rparr>"

definition nextMetadata :: "'r decoder \<Rightarrow> Metadata reply \<times> 'r decoder" where
  "nextMetadata d =
     (case buffer d of
        [] \<Rightarrow> (if end_of_input d then (Throws (External ''EndOfStream''), d) else (Blocks, d))
      | MetadataFrame m # fs \<Rightarrow> (Ready m, d\<lparr> buffer := fs \<rparr>)
      | RecordFrame r # fs \<Rightarrow> (Throws (External ''DecodeError''), d))"

definition nextRecord :: "'r decoder \<Rightarrow> 'r reply \<times> 'r decoder" where
  "nextRecord d =
     (case buffer d of
        [] \<Rightarrow> (if end_of_input d then (Throws (External ''EndOfStream''), d) else (Blocks, d))
      | RecordFrame r # fs \<Rightarrow> (Ready r, d\<lparr> buffer := fs \<rparr>)
      | MetadataFrame m # fs \<Rightarrow> (Throws (External ''DecodeError''), d))"

definition frame_decoder :: "('r frame list, 'r, 'r decoder) DbzParser" where
  "frame_decoder =
     \<lparr> PassBytes = feed, EndInput = signalEndOfInput,
       ParseMetadata = nextMetadata, ParseRecord = nextRecord \<rparr>"

definition empty_decoder :: "'r decoder" where
  "empty_decoder = \<lparr> buffer = [], end_of_input = False \<rparr>"

section \<open>Invariants of a run\<close>

text \<open>
  What the parser has returned and what the callbacks have been invoked with, for
  each place the calling thread can stand at: nothing before the metadata has been
  parsed; from then on the metadata followed by records only, the invocations one
  item behind the parser while the calling thread holds an item, and the number
  of records equal to the loop counter as long as the counter has not wrapped
  around. The state of the user is what the invocations made of it.
\<close>

definition shape :: "nat \<Rightarrow> 'r caller_pc \<Rightarrow> 'r item list \<Rightarrow> 'r item list \<Rightarrow> bool" where
  "shape w pc ps ds =
     (case pc of
        AtParseMetadata \<Rightarrow> ps = [] \<and> ds = []
      | AtMetadataCallback m \<Rightarrow> ps = [MetadataItem m] \<and> ds = []
      | AtLoop i n \<Rightarrow>
          (\<exists>m rs. ds = MetadataItem m # map RecordItem rs \<and> ps = ds \<and> n = record_count m \<and>
                  length rs mod 2 ^ w = i \<and> (n < 2 ^ w \<longrightarrow> length rs \<le> n))
      | AtCallback i n r \<Rightarrow>
          (\<exists>m rs. ds = MetadataItem m # map RecordItem rs \<and> ps = ds @ [RecordItem r] \<and>
                  n = record_count m \<and> length rs mod 2 ^ w = i \<and> i < n \<and>
                  (n < 2 ^ w \<longrightarrow> length rs < n))
      | AtStore i n g \<Rightarrow>
          (\<exists>m rs. ds = MetadataItem m # map RecordItem rs \<and> ps = ds \<and> n = record_count m \<and>
                  length rs mod 2 ^ w = Suc i mod 2 ^ w \<and> i < n \<and>
                  (n < 2 ^ w \<longrightarrow> length rs \<le> n))
      | AtJoin \<Rightarrow>
          (\<exists>m rs. ds = MetadataItem m # map RecordItem rs \<and> ps = ds \<and>
                  length rs = record_count m)
      | Returned \<Rightarrow>
          (\<exists>m rs. ds = MetadataItem m # map RecordItem rs \<and> ps = ds \<and>
                  length rs = record_count m)
      | Unwound t e \<Rightarrow>
          (case t of
             InParseMetadata \<Rightarrow> ps = [] \<and> ds = []
           | InMetadataCallback \<Rightarrow> (\<exists>m. ds = [MetadataItem m] \<and> ps = ds)
           | InParseRecord \<Rightarrow> (\<exists>m rs. ds = MetadataItem m # map RecordItem rs \<and> ps = ds)
           | InCallback \<Rightarrow> (\<exists>m rs. ds = MetadataItem m # map RecordItem rs \<and> ps = ds)))"

definition callbacks_ok ::
  "('c, 'r, 'd, 'u) setting \<Rightarrow> 'u \<Rightarrow> ('c, 'r, 'd, 'u) state \<Rightarrow> bool" where
  "callbacks_ok env u s =
     (shape (ulong_width env) (caller s) (decoded (trace s)) (delivered (trace s)) \<and>
      replay env (delivered (trace s)) u = callbacks_result s)"

text \<open>
  \<^verbatim>\<open>stream.join()\<close> has returned exactly when the call has returned, which needs the
  other thread to have finished; \<^verbatim>\<open>EndInput\<close> has been called exactly when the other
  thread has finished.
\<close>

definition threads_ok :: "('c, 'r, 'd, 'u) state \<Rightarrow> bool" where
  "threads_ok s =
     ((Joined \<in> set (trace s) \<longleftrightarrow> caller s = Returned) \<and>
      (caller s = Returned \<longrightarrow> stream s = Finished) \<and>
      (Ended \<in> set (trace s) \<longleftrightarrow> stream s = Finished))"







section \<open>Concrete runs\<close>

text \<open>
  A response of four chunks, the metadata (declaring three records) and one
  record each; four users, whose record callback always continues, always stops
  or throws, and one whose transfer fails once the body is through; two users
  whose callbacks write down what they are invoked with, one always continuing
  and one always stopping; and the schedules of the runs looked at below. The loop
  counter has 64 bits.
\<close>

definition three_records :: "nat frame list list" where
  "three_records = [[MetadataFrame \<lparr> record_count = 3 \<rparr>], [RecordFrame 10], [RecordFrame 20], [RecordFrame 30]]"

definition always_continue :: "(nat frame list, nat, nat decoder, unit) setting" where
  "always_continue = \<lparr> parser_ops = frame_decoder, metadata_callback = (\<lambda>m u. Inr u),
      callback = (\<lambda>r u. Inr (Continue, u)), transfer_error = None, ulong_width = 64 \<rparr>"

definition always_stop :: "(nat frame list, nat, nat decoder, unit) setting" where
  "always_stop = \<lparr> parser_ops = frame_decoder, metadata_callback = (\<lambda>m u. Inr u),
      callback = (\<lambda>r u. Inr (Stop, u)), transfer_error = None, ulong_width = 64 \<rparr>"

definition throwing_callback :: "(nat frame list, nat, nat decoder, unit) setting" where
  "throwing_callback = \<lparr> parser_ops = frame_decoder, metadata_callback = (\<lambda>m u. Inr u),
      callback = (\<lambda>r u. Inl (External ''thrown by the callback'')), transfer_error = None, ulong_width = 64 \<rparr>"

definition failing_transfer :: "(nat frame list, nat, nat decoder, unit) setting" where
  "failing_transfer = \<lparr> parser_ops = frame_decoder, metadata_callback = (\<lambda>m u. Inr u),
      callback = (\<lambda>r u. Inr (Continue, u)),
      transfer_error = Some (External ''HttpRequestError''), ulong_width = 64 \<rparr>"

definition recording :: "(nat frame list, nat, nat decoder, nat item list) setting" where
  "recording = \<lparr> parser_ops = frame_decoder,
      metadata_callback = (\<lambda>m u. Inr (u @ [MetadataItem m])),
      callback = (\<lambda>r u. Inr (Continue, u @ [RecordItem r])),
      transfer_error = None, ulong_width = 64 \<rparr>"


definition stream_first :: "thread list" where
  "stream_first =
     [StreamThread, StreamThread, StreamThread, StreamThread,
      StreamThread, StreamThread, StreamThread, StreamThread,
      StreamThread, StreamThread, CallerThread, CallerThread,
      CallerThread, CallerThread, CallerThread, CallerThread,
      CallerThread, CallerThread, CallerThread, CallerThread,
      CallerThread, CallerThread, CallerThread]"

definition taking_turns :: "thread list" where
  "taking_turns =
     [CallerThread, StreamThread, CallerThread, StreamThread,
      CallerThread, StreamThread, CallerThread, StreamThread,
      CallerThread, StreamThread, CallerThread, StreamThread,
      CallerThread, StreamThread, CallerThread, StreamThread,
      CallerThread, StreamThread, CallerThread, StreamThread,
      CallerThread, StreamThread, CallerThread, StreamThread,
      CallerThread, StreamThread, CallerThread, StreamThread,
      CallerThread, StreamThread, CallerThread, StreamThread]"

definition stop_honoured :: "thread list" where
  "stop_honoured =
     [StreamThread, StreamThread, CallerThread, CallerThread,
      StreamThread, StreamThread, CallerThread, CallerThread, CallerThread,
      StreamThread, StreamThread, StreamThread,
      CallerThread, CallerThread, CallerThread, CallerThread]"

definition until_first_record :: "thread list" where
  "until_first_record =
     [StreamThread, StreamThread, CallerThread, CallerThread,
      StreamThread, StreamThread, CallerThread, CallerThread]"

definition until_body_ends :: "thread list" where
  "until_body_ends = [StreamThread, StreamThread, CallerThread, CallerThread, StreamThread]"

definition until_metadata_parsed :: "thread list" where
  "until_metadata_parsed = [StreamThread, StreamThread, CallerThread, StreamThread]"

section \<open>Properties of the builder\<close>

lemma builder_calls_fields:
  "builder_calls env_key U calls b0 = Inr b \<Longrightarrow>
   current_key env_key calls (key_member b0) = Some (key_member b) \<and>
   gateway_member b = gateway_set calls (gateway_member b0)"
proof (induction calls arbitrary: b0)
  case Nil
  then show ?case by simp
next
  case (Cons c cs)
  show ?case
  proof (cases c)
    case (CallKey k)
    with Cons.prems have "builder_calls env_key U cs (HistoricalBuilder_key k b0) = Inr b"
      by simp
    from Cons.IH [OF this] show ?thesis
      by (simp add: CallKey HistoricalBuilder_key_def)
  next
    case CallKeyFromEnv
    with Cons.prems obtain k where env: "env_key = Some k"
      and "builder_calls env_key U cs (HistoricalBuilder_key k b0) = Inr b"
      by (cases env_key) (simp_all add: keyFromEnv_def thenR_def)
    from Cons.IH [OF this(2)] show ?thesis
      by (simp add: CallKeyFromEnv env HistoricalBuilder_key_def)
  next
    case (CallGateway g)
    with Cons.prems have "builder_calls env_key U cs (HistoricalBuilder_gateway g b0) = Inr b"
      by simp
    from Cons.IH [OF this] show ?thesis
      by (simp add: CallGateway HistoricalBuilder_gateway_def)
  next
    case CallBuild
    with Cons.prems have key: "key_member b0 \<noteq> []"
      and "builder_calls env_key U cs (b0\<lparr> key_member := [] \<rparr>) = Inr b"
      by (simp_all add: Build_def thenR_def split: if_splits)
    from Cons.IH [OF this(2)] show ?thesis
      by (simp add: CallBuild key)
  qed
qed

lemma builder_calls_throws:
  "isl (builder_calls env_key U calls b0) \<longleftrightarrow> current_key env_key calls (key_member b0) = None"
proof (induction calls arbitrary: b0)
  case Nil
  then show ?case by simp
next
  case (Cons c cs)
  show ?case
  proof (cases c)
    case (CallKey k)
    with Cons.IH [of "HistoricalBuilder_key k b0"] show ?thesis
      by (simp add: HistoricalBuilder_key_def)
  next
    case CallKeyFromEnv
    show ?thesis
    proof (cases env_key)
      case None
      then show ?thesis by (simp add: CallKeyFromEnv keyFromEnv_def thenR_def)
    next
      case (Some k)
      with Cons.IH [of "HistoricalBuilder_key k b0"] show ?thesis
        by (simp add: CallKeyFromEnv keyFromEnv_def thenR_def HistoricalBuilder_key_def)
    qed
  next
    case (CallGateway g)
    with Cons.IH [of "HistoricalBuilder_gateway g b0"] show ?thesis
      by (simp add: HistoricalBuilder_gateway_def)
  next
    case CallBuild
    show ?thesis
    proof (cases "key_member b0 = []")
      case True
      then show ?thesis by (simp add: CallBuild Build_def thenR_def)
    next
      case False
      with Cons.IH [of "b0\<lparr> key_member := [] \<rparr>"] show ?thesis
        by (simp add: CallBuild Build_def thenR_def)
    qed
  qed
qed

text \<open>
  Claim C10 as stated fails at two chains of calls in which a non-empty key has
  been set and \<^verbatim>\<open>Build\<close> throws all the same: \<^verbatim>\<open>key("db-abc")\<close> followed by \<^verbatim>\<open>key("")\<close>,
  and \<^verbatim>\<open>key("db-abc")\<close> followed by a first \<^verbatim>\<open>Build\<close>, which moves the key out.
\<close>

theorem HistoricalBuilder_counterexample:
  "builder_calls None (\<lambda>g. ''https://hist'') [CallKey ''db-abc'', CallKey []]
       (HistoricalBuilder_default :: nat HistoricalBuilder)
     = Inr \<lparr> key_member = [], gateway_member = Nearest \<rparr>
   \<and> builder_calls None (\<lambda>g. ''https://hist'') [CallKey ''db-abc'', CallBuild]
       (HistoricalBuilder_default :: nat HistoricalBuilder)
     = Inr \<lparr> key_member = [], gateway_member = Nearest \<rparr>
   \<and> Build (\<lambda>g. ''https://hist'')
         \<lparr> key_member = [], gateway_member = (Nearest :: nat HistoricalGateway) \<rparr>
     = Inl KeyUnset"
  by (simp add: HistoricalBuilder_default_def HistoricalBuilder_key_def Build_def thenR_def
        Historical_ctor_def)

text \<open>
  Claim C10, amended. \<^verbatim>\<open>keyFromEnv\<close> throws exactly when the environment variable is
  unset. After a chain of calls on a default-constructed builder that did not
  throw, \<^verbatim>\<open>Build\<close> throws exactly when the key the builder holds is empty: no key
  was set, the key set last is empty, or no key was set since the last \<^verbatim>\<open>Build\<close>.
  Otherwise it returns a \<^verbatim>\<open>Historical\<close> whose key is the key set last and whose
  gateway is the URL of the gateway set last, of \<open>Nearest\<close> when none was set, and
  it leaves the builder without a key.
\<close>

theorem HistoricalBuilder_contract:
  "(isl (keyFromEnv env_key b0) \<longleftrightarrow> env_key = None)
   \<and> (isl (builder_calls env_key UrlFromGateway calls HistoricalBuilder_default) \<longleftrightarrow>
        current_key env_key calls [] = None)
   \<and> (builder_calls env_key UrlFromGateway calls HistoricalBuilder_default = Inr b \<longrightarrow>
        current_key env_key calls [] = Some (key_member b)
        \<and> (isl (Build UrlFromGateway b) \<longleftrightarrow> key_member b = [])
        \<and> (key_member b \<noteq> [] \<longrightarrow>
             Build UrlFromGateway b =
               Inr (\<lparr> key = key_member b,
                      gateway = UrlFromGateway (gateway_set calls Nearest) \<rparr>,
                    b\<lparr> key_member := [] \<rparr>)))"
proof (intro conjI impI)
  show "isl (keyFromEnv env_key b0) \<longleftrightarrow> env_key = None"
    by (cases env_key) (simp_all add: keyFromEnv_def)
  show "isl (builder_calls env_key UrlFromGateway calls HistoricalBuilder_default) \<longleftrightarrow>
        current_key env_key calls [] = None"
    using builder_calls_throws [of env_key UrlFromGateway calls HistoricalBuilder_default]
    by (simp add: HistoricalBuilder_default_def)
next
  assume run: "builder_calls env_key UrlFromGateway calls HistoricalBuilder_default = Inr b"
  from builder_calls_fields [OF run]
  show k: "current_key env_key calls [] = Some (key_member b)"
    by (simp add: HistoricalBuilder_default_def)
  from builder_calls_fields [OF run]
  have g: "gateway_member b = gateway_set calls Nearest"
    by (simp add: HistoricalBuilder_default_def)
  show "isl (Build UrlFromGateway b) \<longleftrightarrow> key_member b = []"
    by (simp add: Build_def)
  assume "key_member b \<noteq> []"
  then show "Build UrlFromGateway b =
               Inr (\<lparr> key = key_member b,
                      gateway = UrlFromGateway (gateway_set calls Nearest) \<rparr>,
                    b\<lparr> key_member := [] \<rparr>)"
    by (simp add: Build_def Historical_ctor_def g)
qed

theorem HistoricalBuilder_contract_witness:
  "builder_calls (Some ''db-env'') (\<lambda>g. ''https://hist'')
       [CallKey ''db-old'', CallBuild, CallKeyFromEnv, CallKey ''db-abc'']
       (HistoricalBuilder_default :: nat HistoricalBuilder)
     = Inr \<lparr> key_member = ''db-abc'', gateway_member = Nearest \<rparr>
   \<and> ''db-abc'' \<noteq> []
   \<and> Build (\<lambda>g. ''https://hist'')
        \<lparr> key_member = ''db-abc'', gateway_member = (Nearest :: nat HistoricalGateway) \<rparr>
     = Inr (\<lparr> key = ''db-abc'', gateway = ''https://hist'' \<rparr>,
            \<lparr> key_member = [], gateway_member = Nearest \<rparr>)"
proof -
  let ?calls = "[CallKey ''db-old'', CallBuild, CallKeyFromEnv, CallKey ''db-abc'']
                  :: nat builder_call list"
  let ?b = "\<lparr> key_member = ''db-abc'', gateway_member = (Nearest :: nat HistoricalGateway) \<rparr>"
  have run: "builder_calls (Some ''db-env'') (\<lambda>g. ''https://hist'') ?calls
               HistoricalBuilder_default = Inr ?b"
    by (simp add: HistoricalBuilder_default_def keyFromEnv_def thenR_def
          HistoricalBuilder_key_def Build_def)
  have key: "key_member ?b \<noteq> []"
    by simp
  from HistoricalBuilder_contract
    [where env_key = "Some ''db-env''" and calls = ?calls and b = ?b
       and UrlFromGateway = "\<lambda>g. ''https://hist''"]
  have "Build (\<lambda>g. ''https://hist'') ?b =
          Inr (\<lparr> key = key_member ?b, gateway = ''https://hist'' \<rparr>, ?b\<lparr> key_member := [] \<rparr>)"
    using run key by blast
  then show ?thesis using run by simp
qed

section \<open>Properties of response parsing\<close>

lemma each_get_string_member:
  "(k, JArray xs) \<in> set kvs \<Longrightarrow> isl (each (\<lambda>item. get_string (snd item)) kvs)"
proof (induction kvs)
  case Nil
  then show ?case by simp
next
  case (Cons kv kvs)
  show ?case
  proof (cases "get_string (snd kv)")
    case (Inl e)
    then show ?thesis by (simp add: thenR_def)
  next
    case (Inr s)
    with Cons.prems have "(k, JArray xs) \<in> set kvs"
      by (cases kv) auto
    then have "isl (each (\<lambda>item. get_string (snd item)) kvs)"
      by (rule Cons.IH)
    then show ?thesis
      by (cases "each (\<lambda>item. get_string (snd item)) kvs") (simp_all add: thenR_def Inr)
  qed
qed

lemma ParseAt_strings_never_returns: "isl (ParseAt_strings endpoint j k)"
proof (cases "CheckedAt endpoint j k")
  case (Inl e)
  then show ?thesis by (simp add: ParseAt_strings_def thenR_def)
next
  case (Inr v)
  then obtain kvs where j: "j = JObject kvs" and look: "map_of kvs k = Some v"
    by (auto simp: CheckedAt_def split: json.splits option.splits)
  show ?thesis
  proof (cases "is_array v")
    case False
    then show ?thesis by (simp add: ParseAt_strings_def thenR_def Inr)
  next
    case True
    then obtain xs where "v = JArray xs" by (cases v) simp_all
    with look have "(k, JArray xs) \<in> set kvs" by (simp add: map_of_SomeD)
    then have "isl (each (\<lambda>item. get_string (snd item)) kvs)"
      by (rule each_get_string_member)
    then show ?thesis
      using True Inr by (simp add: ParseAt_strings_def thenR_def j)
  qed
qed

lemma Parse_never_returns: "isl (Parse fs endpoint j)"
proof -
  obtain e where "ParseAt_strings endpoint j ''symbols'' = Inl e"
    using ParseAt_strings_never_returns [of endpoint j "''symbols''"]
    by (cases "ParseAt_strings endpoint j ''symbols''") simp_all
  then show ?thesis
    by (simp add: Parse_def thenR_def split: sum.splits)
qed

text \<open>
  Claim C8 (the code departs from it). For an object whose \<^verbatim>\<open>"symbols"\<close> member is an
  array of strings the parsed job should carry exactly these strings. The loop of
  the vector specialisation runs over the members of the enclosing object instead:
  on the complete job description \<open>job_json\<close>, whose symbols are \<^verbatim>\<open>["ESH3", "CLM3"]\<close>,
  \<^verbatim>\<open>Parse\<close> throws the conversion error of the first member that is not a string.
\<close>

theorem Parse_symbols_failing_input:
  "Parse FromString_id ''BatchSubmitJob'' job_json = Inl (JsonTypeError ''number'')"
  by (simp add: Parse_def job_json_def thenR_def CheckedAt_def ParseAt_string_def ParseAt_strings_def)

text \<open>The sibling operation throws when the response is not an array.\<close>

lemma MetadataListDatasets_null:
  "MetadataListDatasets ''0'' (answering JNull) [] []
   = Inl (TypeMismatch ''ListDatasets'' ''array'' ''null'')"
  by (simp add: MetadataListDatasets_def thenR_def answering_def)

text \<open>
  Claim C7 (the code departs from it). A response that is not an array should make
  \<^verbatim>\<open>BatchListJobs\<close> throw a type mismatch. The error is built and not thrown: for
  the responses \<^verbatim>\<open>null\<close> and \<^verbatim>\<open>{}\<close> the operation returns an empty list of jobs.
\<close>

theorem BatchListJobs_not_array_returns:
  "BatchListJobs FromString_id (\<lambda>s::string. s) ''0'' (answering JNull) [] [] = Inr []
   \<and> BatchListJobs FromString_id (\<lambda>s::string. s) ''0'' (answering (JObject [])) [] [] = Inr []"
  by (simp add: BatchListJobs_def thenR_def answering_def)

section \<open>Properties of request building\<close>

lemma foldl_join_step_nonempty:
  "acc \<noteq> [] \<Longrightarrow> foldl join_step acc strs = acc @ concat (map (\<lambda>s. '','' @ s) strs)"
  by (induction strs arbitrary: acc) (simp_all add: join_step_def)

lemma comma_separated_Cons:
  "comma_separated (x # xs) = x @ concat (map (\<lambda>s. '','' @ s) xs)"
  by (induction xs arbitrary: x) simp_all

lemma accumulate_comma_separated:
  "strings \<noteq> [] \<Longrightarrow> hd strings \<noteq> [] \<Longrightarrow> accumulate strings = comma_separated strings"
  by (cases strings)
     (simp_all add: accumulate_def join_step_def foldl_join_step_nonempty comma_separated_Cons)

lemma accumulate_dropWhile:
  "accumulate strings = comma_separated (dropWhile (\<lambda>s. s = []) strings)"
proof (induction strings)
  case Nil
  then show ?case by (simp add: accumulate_def)
next
  case (Cons x xs)
  then show ?case
    by (simp add: accumulate_def join_step_def foldl_join_step_nonempty comma_separated_Cons)
qed

lemmas params_defs = values_of_def emplace_def SetIfNotEmpty_def SetIfNotEmpty_strings_def
  SetIfNotEmpty_states_def SetIfPositive_def

lemma BatchSubmitJob_optional:
  "values_of (BatchSubmitJob_params tsc tdu tpa tde tst da sc sy st en du split_size_arg pa de si so limit_arg) ''split_size''
           = (if split_size_arg = 0 then [] else [to_string split_size_arg])"
  "values_of (BatchSubmitJob_params tsc tdu tpa tde tst da sc sy st en du split_size_arg pa de si so limit_arg) ''limit''
           = (if limit_arg = 0 then [] else [to_string limit_arg])"
  "values_of (BatchSubmitJob_params tsc tdu tpa tde tst da sc sy st en du split_size_arg pa de si so limit_arg) ''symbols''
           = (if sy = [] then [] else [accumulate sy])"
  by (simp_all add: BatchSubmitJob_params_def params_defs)

lemma BatchListJobs_optional:
  "values_of (BatchListJobs_params ts states since) ''states''
     = (if states = [] then [] else [accumulate (map ts states)])"
  "values_of (BatchListJobs_params ts states since) ''since''
     = (if since = [] then [] else [since])"
  by (simp_all add: BatchListJobs_params_def params_defs)

lemma MetadataListDatasets_optional:
  "values_of (MetadataListDatasets_params start_date end_date) ''start_date''
     = (if start_date = [] then [] else [start_date])"
  "values_of (MetadataListDatasets_params start_date end_date) ''end_date''
     = (if end_date = [] then [] else [end_date])"
  by (simp_all add: MetadataListDatasets_params_def params_defs)

lemma MetadataListSchemas_optional:
  "values_of (MetadataListSchemas_params da start_date end_date) ''start_date''
     = (if start_date = [] then [] else [start_date])"
  "values_of (MetadataListSchemas_params da start_date end_date) ''end_date''
     = (if end_date = [] then [] else [end_date])"
  by (simp_all add: MetadataListSchemas_params_def params_defs)

lemma MetadataGetBillableSize_optional:
  "values_of (MetadataGetBillableSize_params tsc tst da st en sy sc si limit_arg) ''start''
     = (if st = [] then [] else [st])"
  "values_of (MetadataGetBillableSize_params tsc tst da st en sy sc si limit_arg) ''end''
     = (if en = [] then [] else [en])"
  "values_of (MetadataGetBillableSize_params tsc tst da st en sy sc si limit_arg) ''limit''
     = (if limit_arg = 0 then [] else [to_string limit_arg])"
  "values_of (MetadataGetBillableSize_params tsc tst da st en sy sc si limit_arg) ''symbols''
     = (if sy = [] then [] else [accumulate sy])"
  by (simp_all add: MetadataGetBillableSize_params_def params_defs)

lemma MetadataGetCost_optional:
  "values_of (MetadataGetCost_params tfm tsc tst da st en fm sy sc si limit_arg) ''start''
     = (if st = [] then [] else [st])"
  "values_of (MetadataGetCost_params tfm tsc tst da st en fm sy sc si limit_arg) ''end''
     = (if en = [] then [] else [en])"
  "values_of (MetadataGetCost_params tfm tsc tst da st en fm sy sc si limit_arg) ''limit''
     = (if limit_arg = 0 then [] else [to_string limit_arg])"
  "values_of (MetadataGetCost_params tfm tsc tst da st en fm sy sc si limit_arg) ''symbols''
     = (if sy = [] then [] else [accumulate sy])"
  by (simp_all add: MetadataGetCost_params_def params_defs)

lemma SymbologyResolve_optional:
  "values_of (SymbologyResolve_params tst da sy si so start_date end_date default_value) ''symbols''
     = (if sy = [] then [] else [accumulate sy])"
  "values_of (SymbologyResolve_params tst da sy si so start_date end_date default_value) ''default_value''
     = [default_value]"
  by (simp_all add: SymbologyResolve_params_def params_defs)

lemma TimeseriesStream_optional:
  "values_of (TimeseriesStream_params tsc tst ttp da sy sc st en si so limit_arg) ''symbols''
     = (if sy = [] then [] else [accumulate sy])"
  "values_of (TimeseriesStream_params tsc tst ttp da sy sc st en si so limit_arg) ''limit''
     = (if limit_arg = 0 then [] else [to_string limit_arg])"
  by (simp_all add: TimeseriesStream_params_def params_defs)

text \<open>
  Claim C9 as stated fails at two inputs: \<^verbatim>\<open>SymbologyResolve\<close> called without a
  default value sends \<^verbatim>\<open>default_value\<close> with the empty string as its value, and a
  vector whose first element is the empty string is not sent as its elements
  separated by commas.
\<close>

theorem optional_parameters_counterexample:
  "values_of (SymbologyResolve_params_6 (\<lambda>s. s) ''GLBX.MDP3'' [''ESH3''] ''native''
       ''product_id'' ''2022-06-01'' ''2022-06-02'') ''default_value'' \<noteq> []
   \<and> accumulate [[], ''ESH3''] \<noteq> comma_separated [[], ''ESH3'']"
  by (simp add: SymbologyResolve_params_6_def SymbologyResolve_params_def params_defs
        accumulate_def join_step_def)


text \<open>
  Claim C9, amended. In the parameter set of every request-building operation,
  each parameter that goes through \<^verbatim>\<open>SetIfPositive\<close> or \<^verbatim>\<open>SetIfNotEmpty\<close> (the limit,
  the split size, the symbols, the states, \<^verbatim>\<open>since\<close>, and the start and end of the
  metadata operations) has no entry when it is 0 or empty and exactly one entry
  otherwise, holding the decimal digits, the string itself, or the accumulated
  vector; \<^verbatim>\<open>SymbologyResolve\<close> always sends \<^verbatim>\<open>default_value\<close>. The accumulated value of
  a vector whose first element is not empty is its elements in input order, each
  two neighbours separated by one comma.
\<close>

theorem optional_parameters:
  "values_of (BatchSubmitJob_params tsc tdu tpa tde tst da sc sy st en du split_size_arg pa de si so limit_arg) ''split_size''
       = (if split_size_arg = 0 then [] else [to_string split_size_arg])
   \<and> values_of (BatchSubmitJob_params tsc tdu tpa tde tst da sc sy st en du split_size_arg pa de si so limit_arg) ''limit''
       = (if limit_arg = 0 then [] else [to_string limit_arg])
   \<and> values_of (BatchSubmitJob_params tsc tdu tpa tde tst da sc sy st en du split_size_arg pa de si so limit_arg) ''symbols''
       = (if sy = [] then [] else [accumulate sy])
   \<and> values_of (BatchListJobs_params tbs states since) ''states''
       = (if states = [] then [] else [accumulate (map tbs states)])
   \<and> values_of (BatchListJobs_params tbs states since) ''since''
       = (if since = [] then [] else [since])
   \<and> values_of (MetadataListDatasets_params start_date end_date) ''start_date''
       = (if start_date = [] then [] else [start_date])
   \<and> values_of (MetadataListDatasets_params start_date end_date) ''end_date''
       = (if end_date = [] then [] else [end_date])
   \<and> values_of (MetadataListSchemas_params da start_date end_date) ''start_date''
       = (if start_date = [] then [] else [start_date])
   \<and> values_of (MetadataListSchemas_params da start_date end_date) ''end_date''
       = (if end_date = [] then [] else [end_date])
   \<and> values_of (MetadataGetBillableSize_params tsc tst da st en sy sc si limit_arg) ''start''
       = (if st = [] then [] else [st])
   \<and> values_of (MetadataGetBillableSize_params tsc tst da st en sy sc si limit_arg) ''end''
       = (if en = [] then [] else [en])
   \<and> values_of (MetadataGetBillableSize_params tsc tst da st en sy sc si limit_arg) ''limit''
       = (if limit_arg = 0 then [] else [to_string limit_arg])
   \<and> values_of (MetadataGetBillableSize_params tsc tst da st en sy sc si limit_arg) ''symbols''
       = (if sy = [] then [] else [accumulate sy])
   \<and> values_of (MetadataGetCost_params tfm tsc tst da st en fm sy sc si limit_arg) ''start''
       = (if st = [] then [] else [st])
   \<and> values_of (MetadataGetCost_params tfm tsc tst da st en fm sy sc si limit_arg) ''end''
       = (if en = [] then [] else [en])
   \<and> values_of (MetadataGetCost_params tfm tsc tst da st en fm sy sc si limit_arg) ''limit''
       = (if limit_arg = 0 then [] else [to_string limit_arg])
   \<and> values_of (MetadataGetCost_params tfm tsc tst da st en fm sy sc si limit_arg) ''symbols''
       = (if sy = [] then [] else [accumulate sy])
   \<and> values_of (TimeseriesStream_params tsc tst ttp da sy sc tb te si so limit_arg) ''symbols''
       = (if sy = [] then [] else [accumulate sy])
   \<and> values_of (TimeseriesStream_params tsc tst ttp da sy sc tb te si so limit_arg) ''limit''
       = (if limit_arg = 0 then [] else [to_string limit_arg])
   \<and> values_of (SymbologyResolve_params tst da sy si so start_date end_date default_value) ''symbols''
       = (if sy = [] then [] else [accumulate sy])
   \<and> values_of (SymbologyResolve_params tst da sy si so start_date end_date default_value) ''default_value''
       = [default_value]
   \<and> (sy \<noteq> [] \<and> hd sy \<noteq> [] \<longrightarrow> accumulate sy = comma_separated sy)
   \<and> (tbs (hd states) \<noteq> [] \<longrightarrow> accumulate (map tbs states) = comma_separated (map tbs states))"
proof -
  have "states \<noteq> [] \<Longrightarrow> tbs (hd states) \<noteq> [] \<Longrightarrow>
        accumulate (map tbs states) = comma_separated (map tbs states)"
    by (rule accumulate_comma_separated) (simp_all add: hd_map)
  moreover have "states = [] \<Longrightarrow>
        accumulate (map tbs states) = comma_separated (map tbs states)"
    by (simp add: accumulate_def)
  ultimately have st: "tbs (hd states) \<noteq> [] \<longrightarrow>
        accumulate (map tbs states) = comma_separated (map tbs states)"
    by blast
  have sy: "sy \<noteq> [] \<and> hd sy \<noteq> [] \<longrightarrow> accumulate sy = comma_separated sy"
    by (simp add: accumulate_comma_separated)
  show ?thesis
    by (intro conjI BatchSubmitJob_optional BatchListJobs_optional
          MetadataListDatasets_optional MetadataListSchemas_optional
          MetadataGetBillableSize_optional MetadataGetCost_optional
          TimeseriesStream_optional SymbologyResolve_optional sy st)
qed

theorem optional_parameters_witness:
  "[''ESH3'', ''CLM3''] \<noteq> [] \<and> hd [''ESH3'', ''CLM3''] \<noteq> []
   \<and> accumulate [''ESH3'', ''CLM3''] = ''ESH3,CLM3''
   \<and> hd [''received'', ''done''] \<noteq> []
   \<and> accumulate (map (\<lambda>s. s) [''received'', ''done'']) = ''received,done''
   \<and> values_of (BatchSubmitJob_params (\<lambda>s. s) (\<lambda>s. s) (\<lambda>s. s) (\<lambda>s. s) (\<lambda>s. s)
         ''GLBX.MDP3'' ''trades'' [''ESH3'', ''CLM3''] ''2022-06-01'' ''2022-06-02'' ''day'' 0
         ''none'' ''download'' ''native'' ''product_id'' 1000) ''symbols'' = [''ESH3,CLM3'']"
  using optional_parameters [where sy = "[''ESH3'', ''CLM3'']" and tbs = "\<lambda>s. s"
      and states = "[''received'', ''done'']" and tsc = "\<lambda>s. s" and tdu = "\<lambda>s. s"
      and tpa = "\<lambda>s. s" and tde = "\<lambda>s. s" and tst = "\<lambda>s. s" and tfm = "\<lambda>s. s"
      and ttp = "\<lambda>s. s" and da = "''GLBX.MDP3''" and sc = "''trades''"
      and st = "''2022-06-01''" and en = "''2022-06-02''" and du = "''day''"
      and split_size_arg = 0 and pa = "''none''" and de = "''download''"
      and si = "''native''" and so = "''product_id''" and limit_arg = 1000
      and since = "[]" and start_date = "[]" and end_date = "[]" and fm = "''historical''"
      and tb = "''2022-06-01''" and te = "''2022-06-02''" and default_value = "[]"]
  by simp

section \<open>Properties of the historical stream\<close>

lemma delivered_append: "delivered (xs @ ys) = delivered xs @ delivered ys"
  by (induction xs rule: delivered.induct) simp_all

lemma decoded_append: "decoded (xs @ ys) = decoded xs @ decoded ys"
  by (induction xs rule: decoded.induct) simp_all

lemma replay_snoc: "replay env (xs @ [x]) u = thenR (replay env xs u) (invoke env x)"
  by (simp add: replay_def)

lemma callbacks_ok_initial: "callbacks_ok env u (initial chunks d u)"
  by (simp add: callbacks_ok_def initial_def shape_def replay_def callbacks_result_def)

lemma stream_step_callbacks_ok:
  assumes "callbacks_ok env u s" and "stream_step env s = Some s'"
  shows "callbacks_ok env u s'"
proof -
  from assms(2) have at: "stream_at env (stream s) s = Some s'"
    by (simp add: stream_step_def split: if_splits)
  have "caller s' = caller s \<and> user s' = user s \<and>
        delivered (trace s') = delivered (trace s) \<and> decoded (trace s') = decoded (trace s)"
  proof (cases "stream s")
    case InTransfer
    with at show ?thesis
      by (auto simp: delivered_append decoded_append split: list.splits option.splits)
  next
    case InReceiver
    with at show ?thesis by auto
  next
    case AtEndInput
    with at show ?thesis by (auto simp: delivered_append decoded_append)
  next
    case Finished
    with at show ?thesis by simp
  next
    case (Escaped e)
    with at show ?thesis by simp
  qed
  with assms(1) show ?thesis
    by (auto simp: callbacks_ok_def callbacks_result_def split: option.splits)
qed

lemma loop_exit:
  assumes "length rs mod 2 ^ w = i" and "n < 2 ^ w \<longrightarrow> length rs \<le> n" and "\<not> i < n"
  shows "length rs = (n::nat)"
proof -
  have "i < 2 ^ w" using assms(1) by (metis mod_less_divisor zero_less_numeral zero_less_power)
  with assms(3) have small: "n < 2 ^ w" by simp
  with assms(2) have "length rs \<le> n" by simp
  with small have "length rs mod 2 ^ w = length rs" by simp
  with assms(1,3) \<open>length rs \<le> n\<close> show ?thesis by simp
qed

lemma loop_enter:
  assumes "length rs mod 2 ^ w = i" and "n < 2 ^ w \<longrightarrow> length rs \<le> n" and "i < n"
  shows "n < 2 ^ w \<longrightarrow> length rs < (n::nat)"
proof
  assume small: "n < 2 ^ w"
  with assms(2) have "length rs \<le> n" by simp
  with small have "length rs mod 2 ^ w = length rs" by simp
  with assms(1,3) show "length rs < n" by simp
qed

lemma caller_step_callbacks_ok:
  assumes "callbacks_ok env u s" and "caller_step env s = Some s'"
  shows "callbacks_ok env u s'"
proof -
  let ?w = "ulong_width env"
  from assms(1) have sh: "shape ?w (caller s) (decoded (trace s)) (delivered (trace s))"
    and re: "replay env (delivered (trace s)) u = callbacks_result s"
    by (simp_all add: callbacks_ok_def)
  from assms(2) have at: "caller_at env (caller s) s = Some s'"
    by (simp add: caller_step_def split: if_splits)
  show ?thesis
  proof (cases "caller s")
    case AtParseMetadata
    with sh have e: "decoded (trace s) = []" "delivered (trace s) = []"
      by (simp_all add: shape_def)
    from at re e show ?thesis
      by (auto simp: AtParseMetadata callbacks_ok_def shape_def delivered_append decoded_append
                     callbacks_result_def
               split: prod.splits reply.splits)
  next
    case (AtMetadataCallback m)
    with sh have e: "decoded (trace s) = [MetadataItem m]" "delivered (trace s) = []"
      by (simp_all add: shape_def)
    from re e have u: "user s = u"
      by (simp add: AtMetadataCallback replay_def callbacks_result_def)
    from at e u show ?thesis
      by (auto simp: AtMetadataCallback callbacks_ok_def shape_def delivered_append
                     decoded_append callbacks_result_def replay_def thenR_def invoke_def
               split: sum.splits)
  next
    case (AtLoop i n)
    with sh obtain m rs where ds: "delivered (trace s) = MetadataItem m # map RecordItem rs"
      and ps: "decoded (trace s) = delivered (trace s)"
      and n: "n = record_count m" and len: "length rs mod 2 ^ ?w = i"
      and le: "n < 2 ^ ?w \<longrightarrow> length rs \<le> n"
      unfolding shape_def by auto
    from re have re': "replay env (delivered (trace s)) u = Inr (user s)"
      by (simp add: AtLoop callbacks_result_def)
    show ?thesis
    proof (cases "i < n")
      case False
      from loop_exit [OF len le False] have "length rs = record_count m" by (simp add: n)
      with at False ds ps re' show ?thesis
        by (auto simp: AtLoop callbacks_ok_def shape_def callbacks_result_def)
    next
      case True
      note lt = loop_enter [OF len le True]
      from at True have
        "(\<exists>r. delivered (trace s') = delivered (trace s) \<and>
              decoded (trace s') = decoded (trace s) @ [RecordItem r] \<and>
              caller s' = AtCallback i n r \<and> user s' = user s)
         \<or> (trace s' = trace s \<and> user s' = user s \<and> (\<exists>e. caller s' = Unwound InParseRecord e))"
        by (auto simp: AtLoop delivered_append decoded_append
                 split: prod.splits reply.splits)
      then show ?thesis
      proof (elim disjE exE conjE)
        fix r
        assume a: "delivered (trace s') = delivered (trace s)"
          "decoded (trace s') = decoded (trace s) @ [RecordItem r]"
          "caller s' = AtCallback i n r" "user s' = user s"
        have "shape ?w (AtCallback i n r) (decoded (trace s')) (delivered (trace s'))"
          unfolding shape_def using a ds ps n len True lt by auto
        with a re' show ?thesis
          by (simp add: callbacks_ok_def callbacks_result_def)
      next
        fix e
        assume a: "trace s' = trace s" "user s' = user s" "caller s' = Unwound InParseRecord e"
        have "shape ?w (Unwound InParseRecord e) (decoded (trace s')) (delivered (trace s'))"
          unfolding shape_def using a ds ps by auto
        with a re' show ?thesis
          by (simp add: callbacks_ok_def callbacks_result_def)
      qed
    qed
  next
    case (AtCallback i n r)
    with sh obtain m rs where ds: "delivered (trace s) = MetadataItem m # map RecordItem rs"
      and ps: "decoded (trace s) = delivered (trace s) @ [RecordItem r]"
      and n: "n = record_count m" and len: "length rs mod 2 ^ ?w = i" and less: "i < n"
      and lt: "n < 2 ^ ?w \<longrightarrow> length rs < n"
      unfolding shape_def by auto
    from re have re': "replay env (delivered (trace s)) u = Inr (user s)"
      by (simp add: AtCallback callbacks_result_def)
    have ds': "delivered (trace s) @ [RecordItem r] = MetadataItem m # map RecordItem (rs @ [r])"
      using ds by simp
    have "Suc (length rs mod 2 ^ ?w) mod 2 ^ ?w = Suc (length rs) mod 2 ^ ?w"
      by (rule mod_Suc_eq)
    with len have len': "length (rs @ [r]) mod 2 ^ ?w = Suc i mod 2 ^ ?w"
      by simp
    have le': "n < 2 ^ ?w \<longrightarrow> length (rs @ [r]) \<le> n"
      using lt by auto
    from at have
      "delivered (trace s') = delivered (trace s) @ [RecordItem r] \<and>
       decoded (trace s') = decoded (trace s) \<and>
       ((\<exists>g u'. caller s' = AtStore i n g \<and> user s' = u' \<and>
                 callback env r (user s) = Inr (g, u'))
        \<or> (\<exists>e. caller s' = Unwound InCallback e \<and> callback env r (user s) = Inl e))"
      by (auto simp: AtCallback delivered_append decoded_append split: sum.splits prod.splits)
    then show ?thesis
    proof (elim disjE exE conjE)
      fix g u'
      assume a: "delivered (trace s') = delivered (trace s) @ [RecordItem r]"
        "decoded (trace s') = decoded (trace s)"
        "caller s' = AtStore i n g" "user s' = u'" "callback env r (user s) = Inr (g, u')"
      have "shape ?w (AtStore i n g) (decoded (trace s')) (delivered (trace s'))"
        unfolding shape_def using a(1,2) ps ds' n len' less le'
        by (simp del: map_append length_append) blast
      moreover have "replay env (delivered (trace s')) u = Inr u'"
        using a re' by (simp add: replay_snoc thenR_def invoke_def)
      ultimately show ?thesis
        using a by (simp add: callbacks_ok_def callbacks_result_def)
    next
      fix e
      assume a: "delivered (trace s') = delivered (trace s) @ [RecordItem r]"
        "decoded (trace s') = decoded (trace s)"
        "caller s' = Unwound InCallback e" "callback env r (user s) = Inl e"
      have "shape ?w (Unwound InCallback e) (decoded (trace s')) (delivered (trace s'))"
        unfolding shape_def using a(1,2) ps ds'
        by (simp del: map_append) blast
      moreover have "replay env (delivered (trace s')) u = Inl e"
        using a re' by (simp add: replay_snoc thenR_def invoke_def)
      ultimately show ?thesis
        using a by (simp add: callbacks_ok_def callbacks_result_def)
    qed
  next
    case (AtStore i n g)
    with sh at re show ?thesis
      by (auto simp: callbacks_ok_def shape_def callbacks_result_def)
  next
    case AtJoin
    with sh at re show ?thesis
      by (auto simp: callbacks_ok_def shape_def delivered_append decoded_append
                     callbacks_result_def split: if_splits)
  next
    case Returned
    with at show ?thesis by simp
  next
    case (Unwound t e)
    with at show ?thesis by simp
  qed
qed

lemma step_callbacks_ok: "callbacks_ok env u s \<Longrightarrow> callbacks_ok env u (step env t s)"
  by (cases t)
     (auto simp: step_def split: option.splits
           intro: stream_step_callbacks_ok caller_step_callbacks_ok)

lemma run_callbacks_ok: "callbacks_ok env u s \<Longrightarrow> callbacks_ok env u (run env sched s)"
  by (induction sched arbitrary: s) (simp_all add: step_callbacks_ok)

lemma threads_ok_initial: "threads_ok (initial chunks d u)"
  by (simp add: threads_ok_def initial_def)

lemma stream_step_threads_ok:
  assumes "threads_ok s" and "stream_step env s = Some s'"
  shows "threads_ok s'"
proof -
  from assms(2) have at: "stream_at env (stream s) s = Some s'"
    by (simp add: stream_step_def split: if_splits)
  show ?thesis
  proof (cases "stream s")
    case InTransfer
    with assms(1) at show ?thesis
      by (auto simp: threads_ok_def split: list.splits option.splits)
  next
    case InReceiver
    with assms(1) at show ?thesis by (auto simp: threads_ok_def split: if_splits)
  next
    case AtEndInput
    with assms(1) at show ?thesis by (auto simp: threads_ok_def)
  next
    case Finished
    with at show ?thesis by simp
  next
    case (Escaped e)
    with at show ?thesis by simp
  qed
qed

lemma caller_step_threads_ok:
  assumes "threads_ok s" and "caller_step env s = Some s'"
  shows "threads_ok s'"
proof -
  from assms(2) have at: "caller_at env (caller s) s = Some s'"
    by (simp add: caller_step_def split: if_splits)
  show ?thesis
  proof (cases "caller s")
    case AtParseMetadata
    with assms(1) at show ?thesis
      by (auto simp: threads_ok_def split: prod.splits reply.splits)
  next
    case (AtMetadataCallback m)
    with assms(1) at show ?thesis
      by (auto simp: threads_ok_def split: sum.splits)
  next
    case (AtLoop i n)
    with assms(1) at show ?thesis
      by (auto simp: threads_ok_def split: prod.splits reply.splits if_splits)
  next
    case (AtCallback i n r)
    with assms(1) at show ?thesis
      by (auto simp: threads_ok_def split: sum.splits prod.splits)
  next
    case (AtStore i n g)
    with assms(1) at show ?thesis by (auto simp: threads_ok_def)
  next
    case AtJoin
    with assms(1) at show ?thesis by (auto simp: threads_ok_def split: if_splits)
  next
    case Returned
    with at show ?thesis by simp
  next
    case (Unwound w e)
    with at show ?thesis by simp
  qed
qed

lemma step_threads_ok: "threads_ok s \<Longrightarrow> threads_ok (step env t s)"
  by (cases t)
     (auto simp: step_def split: option.splits intro: stream_step_threads_ok caller_step_threads_ok)

lemma run_threads_ok: "threads_ok s \<Longrightarrow> threads_ok (run env sched s)"
  by (induction sched arbitrary: s) (simp_all add: step_threads_ok)

lemma terminated_step: "terminated s \<Longrightarrow> step env t s = s"
  by (cases t) (simp_all add: step_def stream_step_def caller_step_def)

lemma terminated_run: "terminated s \<Longrightarrow> run env sched s = s"
  by (induction sched) (simp_all add: terminated_step)

text \<open>
  The normal path joins and ends the input; an exceptional exit of the calling
  thread never joins; an exception in the other thread never ends the input, and
  the run is over with it.
\<close>

lemma returned_has_joined:
  "caller (run env sched (initial chunks d u)) = Returned \<Longrightarrow>
   stream (run env sched (initial chunks d u)) = Finished \<and>
   Joined \<in> set (trace (run env sched (initial chunks d u))) \<and>
   Ended \<in> set (trace (run env sched (initial chunks d u)))"
  using run_threads_ok [OF threads_ok_initial, of env sched chunks d u] by (auto simp: threads_ok_def)

lemma unwound_never_joins:
  "unwound (caller (run env sched (initial chunks d u))) \<Longrightarrow>
   Joined \<notin> set (trace (run env sched (initial chunks d u)))"
  using run_threads_ok [OF threads_ok_initial, of env sched chunks d u] by (auto simp: threads_ok_def)

lemma finished_has_ended:
  "stream (run env sched (initial chunks d u)) = Finished \<longleftrightarrow>
   Ended \<in> set (trace (run env sched (initial chunks d u)))"
  using run_threads_ok [OF threads_ok_initial, of env sched chunks d u] by (auto simp: threads_ok_def)

lemma escaped_never_ends:
  "escaped (stream (run env sched (initial chunks d u))) \<Longrightarrow>
   Ended \<notin> set (trace (run env sched (initial chunks d u))) \<and>
   caller (run env sched (initial chunks d u)) \<noteq> Returned \<and>
   run env later (run env sched (initial chunks d u)) = run env sched (initial chunks d u)"
  using run_threads_ok [OF threads_ok_initial, of env sched chunks d u]
  by (auto simp: threads_ok_def terminated_run terminated_def)













lemmas run_defs = initial_def step_def stream_step_def caller_step_def terminated_def
  can_step_def frame_decoder_def feed_def signalEndOfInput_def nextMetadata_def nextRecord_def
  empty_decoder_def three_records_def

lemma metadata_invocations_records [simp]:
  "metadata_invocations (map RecordItem rs) = []"
  by (induction rs) simp_all

lemma record_invocations_records [simp]:
  "record_invocations (map RecordItem rs) = rs"
  by (induction rs) simp_all

lemma run_shape:
  "shape (ulong_width env) (caller (run env sched (initial chunks d u)))
         (decoded (trace (run env sched (initial chunks d u))))
         (delivered (trace (run env sched (initial chunks d u))))"
  and run_replay:
  "replay env (delivered (trace (run env sched (initial chunks d u)))) u =
   callbacks_result (run env sched (initial chunks d u))"
  using run_callbacks_ok [OF callbacks_ok_initial, where env = env and sched = sched
      and u = u and chunks1 = chunks and d1 = d]
  by (simp_all add: callbacks_ok_def)


lemma shape_forms:
  assumes "shape w pc ps ds"
  shows "ds = [] \<or> (\<exists>m rs. ds = MetadataItem m # map RecordItem rs)"
    and "\<exists>pending. ps = ds @ pending \<and> length pending \<le> 1"
proof -
  show "ds = [] \<or> (\<exists>m rs. ds = MetadataItem m # map RecordItem rs)"
  proof (cases pc)
    case (Unwound t e)
    with assms show ?thesis
      by (cases t) (auto simp: shape_def intro: exI [of _ "[]"])
  qed (use assms in \<open>auto simp: shape_def\<close>)
  show "\<exists>pending. ps = ds @ pending \<and> length pending \<le> 1"
  proof (cases pc)
    case (Unwound t e)
    with assms show ?thesis
      by (cases t) (auto simp: shape_def)
  qed (use assms in \<open>auto simp: shape_def\<close>)
qed

text \<open>
  Whatever the parser, the callbacks, the chunks and the interleaving: when the
  call has returned normally, the callbacks have been invoked with exactly the
  items the parser returned, the metadata and as many records as it declares, and
  these invocations made the state of the user what it is.
\<close>

lemma returned_after_all_records:
  assumes "caller (run env sched (initial chunks d u)) = Returned"
  shows "\<exists>m rs. delivered (trace (run env sched (initial chunks d u)))
                  = MetadataItem m # map RecordItem rs
           \<and> length rs = record_count m
           \<and> decoded (trace (run env sched (initial chunks d u)))
               = delivered (trace (run env sched (initial chunks d u)))
           \<and> replay env (delivered (trace (run env sched (initial chunks d u)))) u
               = Inr (user (run env sched (initial chunks d u)))"
proof -
  let ?s = "run env sched (initial chunks d u)"
  from run_shape [of env sched chunks d u] assms
  obtain m rs where "delivered (trace ?s) = MetadataItem m # map RecordItem rs"
    and "decoded (trace ?s) = delivered (trace ?s)" and "length rs = record_count m"
    unfolding shape_def by auto
  moreover have "replay env (delivered (trace ?s)) u = Inr (user ?s)"
    using run_replay [of env sched chunks d u] assms by (simp add: callbacks_result_def)
  ultimately show ?thesis by blast
qed




text \<open>
  Claim C6 as stated fails in every run in which \<^verbatim>\<open>ParseMetadata\<close> does not return,
  and in every run that ends between its return and the invocation. When the body
  of the response is empty, and when its first frame is not the metadata, the call
  ends by the exception of \<^verbatim>\<open>ParseMetadata\<close> and the metadata callback has not been
  invoked. When the transfer fails after \<^verbatim>\<open>ParseMetadata\<close> has returned the metadata
  and before the calling thread has gone on, the process ends and the metadata
  callback has not been invoked.
\<close>

theorem metadata_callback_counterexample:
  "terminated (run always_continue [StreamThread, StreamThread, CallerThread]
                 (initial [] empty_decoder ()))
   \<and> length (metadata_invocations (delivered (trace
        (run always_continue [StreamThread, StreamThread, CallerThread]
           (initial [] empty_decoder ()))))) \<noteq> 1
   \<and> terminated (run always_continue [StreamThread, CallerThread]
                 (initial [[RecordFrame 10]] empty_decoder ()))
   \<and> length (metadata_invocations (delivered (trace
        (run always_continue [StreamThread, CallerThread]
           (initial [[RecordFrame 10]] empty_decoder ()))))) \<noteq> 1
   \<and> terminated (run failing_transfer until_metadata_parsed
                 (initial [[MetadataFrame \<lparr> record_count = 3 \<rparr>]] empty_decoder ()))
   \<and> metadata_invocations (decoded (trace
        (run failing_transfer until_metadata_parsed
           (initial [[MetadataFrame \<lparr> record_count = 3 \<rparr>]] empty_decoder ()))))
       = [\<lparr> record_count = 3 \<rparr>]
   \<and> metadata_invocations (delivered (trace
        (run failing_transfer until_metadata_parsed
           (initial [[MetadataFrame \<lparr> record_count = 3 \<rparr>]] empty_decoder ())))) = []"
  by (simp add: always_continue_def failing_transfer_def until_metadata_parsed_def run_defs)

text \<open>
  Claim C6, amended. Whatever the parser, the callbacks, the chunks and the
  interleaving: the metadata callback is invoked at most once and before every
  invocation of the record callback (the invocations of the callbacks are none at
  all, or one of the metadata callback followed by invocations of the record
  callback only); every invocation is with an item the parser returned, in the
  order in which it returned them, and at most one returned item has not been
  handed on; the invocations so far, applied in order to the state of the user at
  the start, give the state of the user now, or the exception that ended the call
  when a callback threw; and in every run that returns normally the metadata
  callback has been invoked exactly once.
\<close>

theorem metadata_callback_once:
  "length (metadata_invocations (delivered (trace (run env sched (initial chunks d u))))) \<le> 1
   \<and> (delivered (trace (run env sched (initial chunks d u))) = []
      \<or> (\<exists>m rs. delivered (trace (run env sched (initial chunks d u)))
                   = MetadataItem m # map RecordItem rs))
   \<and> (\<exists>pending. decoded (trace (run env sched (initial chunks d u)))
                   = delivered (trace (run env sched (initial chunks d u))) @ pending
                 \<and> length pending \<le> 1)
   \<and> replay env (delivered (trace (run env sched (initial chunks d u)))) u
       = callbacks_result (run env sched (initial chunks d u))
   \<and> (caller (run env sched (initial chunks d u)) = Returned \<longrightarrow>
        length (metadata_invocations (delivered (trace (run env sched (initial chunks d u))))) = 1)"
proof -
  let ?s = "run env sched (initial chunks d u)"
  have sh: "shape (ulong_width env) (caller ?s) (decoded (trace ?s)) (delivered (trace ?s))"
    by (rule run_shape)
  from shape_forms [OF sh]
  have forms: "delivered (trace ?s) = []
      \<or> (\<exists>m rs. delivered (trace ?s) = MetadataItem m # map RecordItem rs)"
    and pend: "\<exists>pending. decoded (trace ?s) = delivered (trace ?s) @ pending \<and> length pending \<le> 1"
    by blast+
  from forms have le: "length (metadata_invocations (delivered (trace ?s))) \<le> 1"
    by auto
  have rp: "replay env (delivered (trace ?s)) u = callbacks_result ?s"
    by (rule run_replay)
  have ret: "caller ?s = Returned \<longrightarrow> length (metadata_invocations (delivered (trace ?s))) = 1"
    using sh unfolding shape_def by auto
  from le forms pend rp ret show ?thesis by blast
qed

theorem metadata_callback_once_witness:
  "caller (run recording taking_turns (initial three_records empty_decoder [])) = Returned
   \<and> length (metadata_invocations (delivered (trace
        (run recording taking_turns (initial three_records empty_decoder []))))) = 1
   \<and> replay recording (delivered (trace
        (run recording taking_turns (initial three_records empty_decoder [])))) []
       = Inr [MetadataItem \<lparr> record_count = 3 \<rparr>, RecordItem 10, RecordItem 20, RecordItem 30]"
proof -
  let ?s = "run recording taking_turns (initial three_records empty_decoder [])"
  have h: "caller ?s = Returned"
    and r: "callbacks_result ?s
      = Inr [MetadataItem \<lparr> record_count = 3 \<rparr>, RecordItem 10, RecordItem 20, RecordItem 30]"
    by (simp_all add: recording_def taking_turns_def callbacks_result_def run_defs)
  from metadata_callback_once [where env = recording and sched = taking_turns
      and chunks = three_records and d = empty_decoder and u = "[]"] h r
  show ?thesis by simp
qed

text \<open>
  Claim C2 (the code departs from it). The loop has no \<^verbatim>\<open>break\<close>: the callback's
  answer is stored in \<^verbatim>\<open>should_continue\<close> and the loop goes on to \<^verbatim>\<open>record_count\<close>
  iterations. With a record callback that answers \<open>Stop\<close> every time: when the
  other thread has passed all four chunks before the first record is parsed, the
  callback is invoked with all three records, two chunks' worth after the first
  \<open>Stop\<close>; when the other thread sees the flag after the third chunk and ends the
  transfer, the calling thread asks for the third record, \<^verbatim>\<open>ParseRecord\<close> throws at
  the end of the input, and the call does not return.
\<close>

theorem stop_not_honoured:
  "record_invocations (delivered (trace
      (run always_stop stream_first (initial three_records empty_decoder ())))) = [10, 20, 30]
   \<and> caller (run always_stop stop_honoured (initial three_records empty_decoder ()))
       = Unwound InParseRecord (External ''EndOfStream'')
   \<and> stream (run always_stop stop_honoured (initial three_records empty_decoder ())) = Finished
   \<and> record_invocations (delivered (trace
      (run always_stop stop_honoured (initial three_records empty_decoder ())))) = [10, 20]"
  by (simp add: always_stop_def stream_first_def stop_honoured_def run_defs)

text \<open>
  Claim C3 (the code departs from it). \<^verbatim>\<open>stream.join()\<close> is the last statement and
  nothing guards the statements before it: when the record callback throws on the
  first record, the exception leaves \<^verbatim>\<open>TimeseriesStream\<close> while the other thread is
  still in the transfer, and no join has happened.
\<close>

theorem exception_skips_join:
  "caller (run throwing_callback until_first_record (initial three_records empty_decoder ()))
     = Unwound InCallback (External ''thrown by the callback'')
   \<and> stream (run throwing_callback until_first_record (initial three_records empty_decoder ()))
     = InTransfer
   \<and> Joined \<notin> set (trace
        (run throwing_callback until_first_record (initial three_records empty_decoder ())))"
  by (simp add: throwing_callback_def until_first_record_def run_defs)

text \<open>
  Claim C4 (the code departs from it). The lambda of the thread has no handler:
  when \<^verbatim>\<open>GetRawStream\<close> throws, the exception leaves the function of the thread,
  which ends the process. The calling thread stands at the head of its loop; it
  holds no error and takes no further step.
\<close>

theorem transfer_error_not_reraised:
  "stream (run failing_transfer until_body_ends
             (initial [[MetadataFrame \<lparr> record_count = 3 \<rparr>]] empty_decoder ()))
     = Escaped (External ''HttpRequestError'')
   \<and> caller (run failing_transfer until_body_ends
             (initial [[MetadataFrame \<lparr> record_count = 3 \<rparr>]] empty_decoder ()))
     = AtLoop 0 3
   \<and> terminated (run failing_transfer until_body_ends
             (initial [[MetadataFrame \<lparr> record_count = 3 \<rparr>]] empty_decoder ()))"
  by (simp add: failing_transfer_def until_body_ends_def run_defs)

text \<open>
  Claim C5 (the code departs from it). \<^verbatim>\<open>EndInput\<close> is the statement after the call
  of \<^verbatim>\<open>GetRawStream\<close>: when that call throws, \<^verbatim>\<open>EndInput\<close> is not called and the
  parser never learns that the input has ended.
\<close>

theorem transfer_error_skips_EndInput:
  "stream (run failing_transfer [StreamThread]  (initial [] empty_decoder ()))
     = Escaped (External ''HttpRequestError'')
   \<and> Ended \<notin> set (trace (run failing_transfer [StreamThread] (initial [] empty_decoder ())))
   \<and> end_of_input (dbz_parser (run failing_transfer [StreamThread] (initial [] empty_decoder ())))
     = False"
  by (simp add: failing_transfer_def run_defs)

end
